theory Spec2Isabelle
  imports Complex_Main "HOL-Library.Multiset"
begin

section \<open>JavaScript string helpers used by the models and routes\<close>

text \<open>
  Strings are lists of characters; \<open>length\<close> counts the units that JavaScript's
  \<open>length\<close>, \<open>substring\<close> and \<open>slice\<close> count. An optional field holds
  \<open>None\<close> where the document has \<open>undefined\<close> or \<open>null\<close>.
\<close>

text \<open>\<open>!s\<close> on an optional string: \<open>undefined\<close>, \<open>null\<close> and \<open>''\<close> are falsy.\<close>

definition falsy :: "string option \<Rightarrow> bool" where
  "falsy s = (case s of None \<Rightarrow> True | Some v \<Rightarrow> v = [])"

text \<open>\<open>s.substring(0, n)\<close>.\<close>

definition substring0 :: "nat \<Rightarrow> string \<Rightarrow> string" where
  "substring0 n s = take n s"

text \<open>\<open>s.slice(-n)\<close>: the last \<open>n\<close> units, the whole string when it is shorter.\<close>

definition slice_last :: "nat \<Rightarrow> string \<Rightarrow> string" where
  "slice_last n s = drop (length s - n) s"

definition digit_char :: "nat \<Rightarrow> char" where
  "digit_char d = char_of (48 + d)"

text \<open>\<open>Number.prototype.toString\<close> on a non-negative integer: its decimal digits.\<close>

function toString :: "nat \<Rightarrow> string" where
  "toString n = (if n < 10 then [digit_char n] else toString (n div 10) @ [digit_char (n mod 10)])"
  by pat_completeness auto
termination
  by (relation "measure (\<lambda>n. n)") auto

declare toString.simps [simp del]

text \<open>The class \<open>\s\<close> of JavaScript regular expressions, on 8-bit units.\<close>

definition is_space :: "char \<Rightarrow> bool" where
  "is_space c = (of_char c \<in> {9, 10, 11, 12, 13, 32, 160 :: nat})"

text \<open>
  \<open>s.split(/\s+/).length\<close>: one more than the number of maximal runs of white space.
\<close>

function ws_runs :: "string \<Rightarrow> nat" where
  "ws_runs [] = 0"
| "ws_runs (c # cs) =
     (if is_space c then Suc (ws_runs (dropWhile is_space cs)) else ws_runs cs)"
  by pat_completeness auto
termination
  by (relation "measure length") (auto simp: length_dropWhile_le less_Suc_eq_le)

definition split_ws_length :: "string \<Rightarrow> nat" where
  "split_ws_length s = Suc (ws_runs s)"

text \<open>
  \<open>s.replace(/<[^>]*>/g, '')\<close>: every match runs from a \<open><\<close> to the first
  \<open>>\<close> after it; matches are taken left to right and do not overlap. A \<open><\<close>
  with no \<open>>\<close> after it stays, and so does the rest of the string.
\<close>

function strip_tags :: "string \<Rightarrow> string" where
  "strip_tags [] = []"
| "strip_tags (c # cs) =
     (if c = CHR ''<'' then
        (case dropWhile (\<lambda>d. d \<noteq> CHR ''>'') cs of
           [] \<Rightarrow> c # cs
         | _ # rest \<Rightarrow> strip_tags rest)
      else c # strip_tags cs)"
  by pat_completeness auto
termination
proof (relation "measure length", goal_cases)
  case 1
  show ?case by simp
next
  case (2 c cs x rest)
  have "length (dropWhile (\<lambda>d. d \<noteq> CHR ''>'') cs) \<le> length cs"
    by (rule length_dropWhile_le)
  with 2 show ?case by simp
next
  case (3 c cs)
  show ?case by simp
qed

text \<open>
  \<open>toLowerCase\<close> on 8-bit units: the letters \<open>A\<close> to \<open>Z\<close> and the capital
  letters of Latin-1 (units 192 to 222 without the multiplication sign 215) move up
  by 32.
\<close>

definition is_upper :: "char \<Rightarrow> bool" where
  "is_upper c =
     ((65 \<le> (of_char c :: nat) \<and> (of_char c :: nat) \<le> 90)
      \<or> (192 \<le> (of_char c :: nat) \<and> (of_char c :: nat) \<le> 222
           \<and> (of_char c :: nat) \<noteq> 215))"

definition lower_char :: "char \<Rightarrow> char" where
  "lower_char c = (if is_upper c then char_of ((of_char c :: nat) + 32) else c)"

definition toLowerCase :: "string \<Rightarrow> string" where
  "toLowerCase s = map lower_char s"

text \<open>\<open>trim\<close>: white space removed at both ends.\<close>

definition js_trim :: "string \<Rightarrow> string" where
  "js_trim s = rev (dropWhile is_space (rev (dropWhile is_space s)))"

section \<open>The Post model\<close>

text \<open>
  The schema of \<open>postSchema\<close>. Object ids are natural numbers, dates are milliseconds
  since the epoch. The fields \<open>relatedPosts\<close>, \<open>commentCount\<close>,
  \<open>externalLinks\<close>, \<open>analytics\<close> and \<open>updatedAt\<close> are read by none of the
  hooks and handlers below and are left out of the record.
\<close>

datatype status = Draft | Published | Archived

record seo =
  metaTitle :: "string option"
  metaDescription :: "string option"
  metaKeywords :: "string list"

record post_seo = seo +
  ogImage :: "string option"
  canonicalUrl :: "string option"

record featuredImage =
  url :: "string option"
  alt :: string
  caption :: string

record affiliateLink =
  text_of :: string
  link_url :: string
  position :: string

record post =
  oid :: nat
  title :: string
  slug :: string
  content :: string
  excerpt :: "string option"
  featuredImage :: featuredImage
  category :: nat
  tags :: "string list"
  author :: nat
  status :: status
  publishedAt :: "int option"
  scheduledFor :: "int option"
  views :: int
  likes :: int
  readingTime :: nat
  seo :: post_seo
  contentType :: string
  commentsEnabled :: bool
  affiliateLinks :: "affiliateLink list"
  adSenseEnabled :: bool
  createdAt :: int

text \<open>The schema's setters: \<open>slug\<close> is lowercased on every assignment.\<close>

definition set_slug :: "string \<Rightarrow> post \<Rightarrow> post" where
  "set_slug v p = p\<lparr>slug := toLowerCase v\<rparr>"

subsection \<open>\<open>postSchema.pre('save')\<close>\<close>

text \<open>
  The hook reads the document's change tracking (\<open>isModified\<close>, \<open>isNew\<close>) and the
  clock, and calls the library function \<open>slugify\<close> with fixed options
  \<open>{lower: true, strict: true, remove: /[*+~.()'"!:@]/g}\<close>. These are
  arguments of the model; \<open>slugify\<close> stands for the library call with those options.
  Each block of the hook is one function, and the hook runs them in the order of
  the source.
\<close>

definition slug_block ::
  "(string \<Rightarrow> string) \<Rightarrow> (string \<Rightarrow> bool) \<Rightarrow> bool \<Rightarrow> nat \<Rightarrow> post \<Rightarrow> post" where
  "slug_block slugify isModified isNew now p =
     (if isModified ''title'' \<or> isNew then
        (let p1 = set_slug (slugify (title p)) p in
         if isNew then
           (let timestamp = slice_last 4 (toString now)
            in set_slug (slug p1 @ ''-'' @ timestamp) p1)
         else p1)
      else p)"

definition excerpt_block :: "(string \<Rightarrow> bool) \<Rightarrow> post \<Rightarrow> post" where
  "excerpt_block isModified p =
     (if isModified ''content'' \<and> falsy (excerpt p) then
        (let plainText = strip_tags (content p)
         in p\<lparr>excerpt :=
              Some (substring0 200 plainText @ (if length plainText > 200 then ''...'' else []))\<rparr>)
      else p)"

text \<open>\<open>Math.ceil(wordCount / 200)\<close> on a non-negative count.\<close>

definition readingTime_block :: "(string \<Rightarrow> bool) \<Rightarrow> post \<Rightarrow> post" where
  "readingTime_block isModified p =
     (if isModified ''content'' then
        (let wordsPerMinute = 200;
             wordCount = split_ws_length (content p)
         in p\<lparr>readingTime := (wordCount + (wordsPerMinute - 1)) div wordsPerMinute\<rparr>)
      else p)"

definition publishedAt_block :: "(string \<Rightarrow> bool) \<Rightarrow> int \<Rightarrow> post \<Rightarrow> post" where
  "publishedAt_block isModified today p =
     (if isModified ''status'' \<and> status p = Published \<and> publishedAt p = None
      then p\<lparr>publishedAt := Some today\<rparr>
      else p)"

text \<open>\<open>this.excerpt || this.content.substring(0, 160)\<close> is the excerpt when it is truthy.\<close>

definition seo_block :: "post \<Rightarrow> post" where
  "seo_block p =
     (let p1 = (if falsy (metaTitle (seo p))
                then p\<lparr>seo := (seo p)\<lparr>metaTitle := Some (substring0 60 (title p))\<rparr>\<rparr>
                else p)
      in if falsy (metaDescription (seo p1))
         then p1\<lparr>seo := (seo p1)\<lparr>metaDescription :=
                Some (case excerpt p1 of
                        None \<Rightarrow> substring0 160 (content p1)
                      | Some e \<Rightarrow> if e = [] then substring0 160 (content p1) else e)\<rparr>\<rparr>
         else p1)"

text \<open>
  The hook: \<open>now\<close> is the reading of \<open>Date.now()\<close> in the slug block,
  \<open>today\<close> the value of \<open>new Date()\<close> in the publication block.
\<close>

definition post_pre_save ::
  "(string \<Rightarrow> string) \<Rightarrow> (string \<Rightarrow> bool) \<Rightarrow> bool \<Rightarrow> nat \<Rightarrow> int \<Rightarrow> post \<Rightarrow> post" where
  "post_pre_save slugify isModified isNew now today p =
     seo_block
       (publishedAt_block isModified today
          (readingTime_block isModified
             (excerpt_block isModified
                (slug_block slugify isModified isNew now p))))"

section \<open>The Category model\<close>

record category =
  cat_oid :: nat
  name :: string
  cat_slug :: string
  description :: "string option"
  color :: string
  icon :: string
  cat_image :: "string option"
  parentCategory :: "nat option"
  isActive :: bool
  sortOrder :: int
  cat_seo :: seo
  postCount :: int
  totalViews :: int

subsection \<open>\<open>categorySchema.pre('save')\<close>\<close>

definition category_pre_save ::
  "(string \<Rightarrow> string) \<Rightarrow> (string \<Rightarrow> bool) \<Rightarrow> bool \<Rightarrow> category \<Rightarrow> category" where
  "category_pre_save slugify isModified isNew c =
     (let c1 = (if isModified ''name'' \<or> isNew
                then c\<lparr>cat_slug := toLowerCase (slugify (name c))\<rparr>
                else c);
          c2 = (if falsy (metaTitle (cat_seo c1))
                then c1\<lparr>cat_seo := (cat_seo c1)\<lparr>metaTitle := Some (name c1)\<rparr>\<rparr>
                else c1)
      in case description c2 of
           None \<Rightarrow> c2
         | Some d \<Rightarrow>
             if falsy (metaDescription (cat_seo c2)) \<and> d \<noteq> []
             then c2\<lparr>cat_seo := (cat_seo c2)\<lparr>metaDescription := Some (substring0 160 d)\<rparr>\<rparr>
             else c2)"

section \<open>Requests, responses and the stores\<close>

text \<open>
  A response is the status code with the envelope's \<open>success\<close> flag: \<open>Success\<close>
  carries the \<open>data\<close>, \<open>Failure\<close> the \<open>message\<close>. \<open>Rejected\<close> is a request
  ended by the authentication middleware before the handler runs.
\<close>

datatype 'd response =
    Success nat 'd
  | Failure nat string
  | Rejected

text \<open>
  Modelled from the spec: the middleware \<open>auth\<close> and \<open>adminAuth\<close> of
  \<open>middleware/auth.js\<close> is not among the sources. The spec gives it as a pass/fail
  decision with the caller's identity when present: \<open>auth\<close> passes for an
  authenticated caller, \<open>adminAuth\<close> for one who is an administrator.
\<close>

record caller =
  user_id :: nat
  is_admin :: bool

definition auth :: "caller option \<Rightarrow> bool" where
  "auth u = (u \<noteq> None)"

definition adminAuth :: "caller option \<Rightarrow> bool" where
  "adminAuth u = (case u of None \<Rightarrow> False | Some c \<Rightarrow> is_admin c)"

text \<open>A collection is the list of its documents; \<open>findById\<close> returns the first match.\<close>

definition findById :: "('a \<Rightarrow> nat) \<Rightarrow> nat \<Rightarrow> 'a list \<Rightarrow> 'a option" where
  "findById key i docs = find (\<lambda>d. key d = i) docs"

text \<open>\<open>countDocuments(filter)\<close>.\<close>

definition countDocuments :: "('a \<Rightarrow> bool) \<Rightarrow> 'a list \<Rightarrow> int" where
  "countDocuments f docs = int (length (filter f docs))"

text \<open>\<open>findByIdAndDelete\<close>: the first document with the id is removed.\<close>

fun deleteById :: "('a \<Rightarrow> nat) \<Rightarrow> nat \<Rightarrow> 'a list \<Rightarrow> 'a list" where
  "deleteById key i [] = []"
| "deleteById key i (d # ds) = (if key d = i then ds else d # deleteById key i ds)"

text \<open>An update of the first document with the id; the other documents stay.\<close>

fun updateById :: "('a \<Rightarrow> nat) \<Rightarrow> nat \<Rightarrow> ('a \<Rightarrow> 'a) \<Rightarrow> 'a list \<Rightarrow> 'a list" where
  "updateById key i f [] = []"
| "updateById key i f (d # ds) =
     (if key d = i then f d # ds else d # updateById key i f ds)"

section \<open>The comment routes\<close>

text \<open>
  Modelled from the spec: the schema of \<open>models/Comment.js\<close> is not among the
  sources. The spec lists its fields: \<open>postId\<close>, \<open>author\<close>, \<open>email\<close>,
  \<open>content\<close>, the optional \<open>parentId\<close>, \<open>isApproved\<close> (default false) and
  the timestamps.
\<close>

record comment =
  com_oid :: nat
  postId :: nat
  com_author :: string
  email :: string
  com_content :: string
  parentId :: "nat option"
  isApproved :: bool
  com_createdAt :: int

text \<open>A stable insertion sort, for the store's \<open>sort\<close>.\<close>

fun insert_by :: "('a \<Rightarrow> 'a \<Rightarrow> bool) \<Rightarrow> 'a \<Rightarrow> 'a list \<Rightarrow> 'a list" where
  "insert_by le x [] = [x]"
| "insert_by le x (y # ys) = (if le x y then x # y # ys else y # insert_by le x ys)"

definition sort_by :: "('a \<Rightarrow> 'a \<Rightarrow> bool) \<Rightarrow> 'a list \<Rightarrow> 'a list" where
  "sort_by le xs = foldr (insert_by le) xs []"

text \<open>
  \<open>GET /api/comments/:postId\<close>:
  \<open>Comment.find({postId, isApproved: true}).sort({createdAt: -1})\<close>.
\<close>

definition get_comments :: "nat \<Rightarrow> comment list \<Rightarrow> comment list response" where
  "get_comments pid comments =
     Success 200
       (sort_by (\<lambda>a b. com_createdAt a \<ge> com_createdAt b)
          (filter (\<lambda>c. postId c = pid \<and> isApproved c) comments))"

text \<open>
  \<open>POST /api/comments\<close>. The body's fields are optional; \<open>!postId\<close> holds for a missing
  id, \<open>!author\<close> for a missing or empty string. The new document gets its id and its
  \<open>createdAt\<close> from the ODM (\<open>fresh\<close>, \<open>now\<close>); \<open>valid\<close> is the verdict of the
  schema's validation in \<open>save()\<close>, whose rejection the handler answers with 500.
\<close>

record comment_body =
  cb_postId :: "nat option"
  cb_author :: "string option"
  cb_email :: "string option"
  cb_content :: "string option"
  cb_parentId :: "nat option"

definition post_comment ::
  "(comment \<Rightarrow> bool) \<Rightarrow> nat \<Rightarrow> int \<Rightarrow> comment_body \<Rightarrow> comment list
     \<Rightarrow> comment response \<times> comment list" where
  "post_comment valid fresh now body comments =
     (if cb_postId body = None \<or> falsy (cb_author body) \<or> falsy (cb_email body)
         \<or> falsy (cb_content body)
      then (Failure 400 ''Please provide all required fields'', comments)
      else
        (let newComment = \<lparr> com_oid = fresh,
                             postId = the (cb_postId body),
                             com_author = the (cb_author body),
                             email = the (cb_email body),
                             com_content = the (cb_content body),
                             parentId = cb_parentId body,
                             isApproved = False,
                             com_createdAt = now \<rparr>
         in if valid newComment
            then (Success 201 newComment, comments @ [newComment])
            else (Failure 500 ''Server error'', comments)))"

text \<open>
  \<open>PUT /api/comments/:id/approve\<close>: the route is registered with the handler alone.
  The caller is part of the request; the handler does not read it.
\<close>

definition approve_comment ::
  "caller option \<Rightarrow> nat \<Rightarrow> comment list \<Rightarrow> comment response \<times> comment list" where
  "approve_comment user i comments =
     (case findById com_oid i comments of
        None \<Rightarrow> (Failure 404 ''Comment not found'', comments)
      | Some c \<Rightarrow>
          (Success 200 (c\<lparr>isApproved := True\<rparr>),
           updateById com_oid i (\<lambda>d. d\<lparr>isApproved := True\<rparr>) comments))"

text \<open>\<open>DELETE /api/comments/:id\<close>, registered with the handler alone as well.\<close>

definition delete_comment ::
  "caller option \<Rightarrow> nat \<Rightarrow> comment list \<Rightarrow> string response \<times> comment list" where
  "delete_comment user i comments =
     (case findById com_oid i comments of
        None \<Rightarrow> (Failure 404 ''Comment not found'', comments)
      | Some c \<Rightarrow> (Success 200 ''Comment deleted'', deleteById com_oid i comments))"

section \<open>Request parameters: validators and parsing\<close>

definition is_digit :: "char \<Rightarrow> bool" where
  "is_digit c = (48 \<le> (of_char c :: nat) \<and> (of_char c :: nat) \<le> 57)"

definition is_hex_digit :: "char \<Rightarrow> bool" where
  "is_hex_digit c =
     (is_digit c \<or> (65 \<le> (of_char c :: nat) \<and> (of_char c :: nat) \<le> 70)
                 \<or> (97 \<le> (of_char c :: nat) \<and> (of_char c :: nat) \<le> 102))"

definition hex_digit_value :: "char \<Rightarrow> nat" where
  "hex_digit_value c =
     (if is_digit c then of_char c - 48
      else if (of_char c :: nat) \<le> 70 then of_char c - 55
      else of_char c - 87)"

definition decimal_value :: "string \<Rightarrow> nat" where
  "decimal_value s = foldl (\<lambda>acc c. 10 * acc + (of_char c - 48)) 0 s"

definition hex_value :: "string \<Rightarrow> nat" where
  "hex_value s = foldl (\<lambda>acc c. 16 * acc + hex_digit_value c) 0 s"

text \<open>
  The validator \<open>isInt\<close> of the validation library: the string matches
  \<open>/^[-+]?[0-9]+$/\<close> and its value lies within the bounds given. The library
  compares the string with a bound as doubles; the conversion of the string is
  monotone and the bounds 1 and 50 are doubles, so the comparison of the exact
  values decides the same.
\<close>

definition int_regex :: "string \<Rightarrow> bool" where
  "int_regex s =
     (let ds = (case s of
                  [] \<Rightarrow> []
                | c # cs \<Rightarrow> if c = CHR ''-'' \<or> c = CHR ''+'' then cs else s)
      in ds \<noteq> [] \<and> list_all is_digit ds)"

definition int_value :: "string \<Rightarrow> int" where
  "int_value s =
     (case s of
        [] \<Rightarrow> 0
      | c # cs \<Rightarrow>
          if c = CHR ''-'' then - int (decimal_value cs)
          else if c = CHR ''+'' then int (decimal_value cs)
          else int (decimal_value s))"

definition isInt :: "int option \<Rightarrow> int option \<Rightarrow> string \<Rightarrow> bool" where
  "isInt mn mx s =
     (int_regex s
      \<and> (case mn of None \<Rightarrow> True | Some m \<Rightarrow> m \<le> int_value s)
      \<and> (case mx of None \<Rightarrow> True | Some m \<Rightarrow> int_value s \<le> m))"

text \<open>
  \<open>isMongoId\<close> of the validation library: the string matches the library's
  pattern of a hexadecimal number, \<open>/^(0x|0h)?[0-9A-F]+$/i\<close>, and has 24
  characters.
\<close>

definition hexadecimal :: "string \<Rightarrow> bool" where
  "hexadecimal s =
     (let ds = (case s of
                  a # b # cs \<Rightarrow> if a = CHR ''0'' \<and> b \<in> set ''xXhH'' then cs else s
                | _ \<Rightarrow> s)
      in ds \<noteq> [] \<and> list_all is_hex_digit ds)"

definition isMongoId :: "string \<Rightarrow> bool" where
  "isMongoId s = (hexadecimal s \<and> length s = 24)"

text \<open>
  The ODM's cast of a string to an object id: 24 hexadecimal digits. \<open>None\<close> is
  the cast error; a string of 24 characters with the prefix \<open>0x\<close> or \<open>0h\<close>
  passes \<open>isMongoId\<close> and raises it.
\<close>

definition objectId :: "string \<Rightarrow> nat option" where
  "objectId s =
     (if length s = 24 \<and> list_all is_hex_digit s then Some (hex_value s) else None)"

text \<open>\<open>.optional()\<close>: the validator runs only on a parameter that is present.\<close>

definition optional :: "('a \<Rightarrow> bool) \<Rightarrow> 'a option \<Rightarrow> bool" where
  "optional v x = (case x of None \<Rightarrow> True | Some y \<Rightarrow> v y)"

text \<open>
  The numbers that \<open>parseInt\<close> and the arithmetic of the list routes produce: a
  double whose value is an integer, an infinity of either sign, or \<open>NaN\<close>.
\<close>

datatype number = Value int | Infinity | NaN

text \<open>
  The double nearest to an integer, ties to the even significand: an integer
  below \<open>2^53\<close> in absolute value is a double; a larger one keeps its 53 leading
  bits, \<open>exponent\<close> counting the bits dropped. \<open>None\<close> is the overflow to an
  infinity.
\<close>

fun exponent :: "nat \<Rightarrow> nat" where
  "exponent a = (if a < 2 ^ 53 then 0 else Suc (exponent (a div 2)))"

declare exponent.simps [simp del]

definition round_double :: "int \<Rightarrow> int option" where
  "round_double v =
     (let a = nat \<bar>v\<bar>;
          e = exponent a;
          q = a div 2 ^ e;
          r = a mod 2 ^ e;
          up = (2 ^ e < 2 * r \<or> (2 * r = 2 ^ e \<and> odd q));
          m = (if up then q + 1 else q) * 2 ^ e
      in if 2 ^ 1024 \<le> m then None else Some (if v < 0 then - int m else int m))"

definition to_number :: "int \<Rightarrow> number" where
  "to_number v = (case round_double v of None \<Rightarrow> Infinity | Some d \<Rightarrow> Value d)"

text \<open>
  \<open>parseInt(s)\<close> without a radix: leading white space, a sign, a \<open>0x\<close> prefix for
  base 16, then the longest run of digits, read as the nearest double; \<open>NaN\<close> when
  there is no digit.
\<close>

definition parseInt :: "string \<Rightarrow> number" where
  "parseInt s =
     (let t = dropWhile is_space s;
          neg = (case t of [] \<Rightarrow> False | c # _ \<Rightarrow> c = CHR ''-'');
          u = (case t of
                 [] \<Rightarrow> []
               | c # cs \<Rightarrow> if c = CHR ''-'' \<or> c = CHR ''+'' then cs else t);
          hex = (case u of
                   a # b # _ \<Rightarrow> a = CHR ''0'' \<and> (b = CHR ''x'' \<or> b = CHR ''X'')
                 | _ \<Rightarrow> False);
          ds = (if hex then takeWhile is_hex_digit (drop 2 u) else takeWhile is_digit u);
          v = int (if hex then hex_value ds else decimal_value ds)
      in if ds = [] then NaN else to_number (if neg then - v else v))"

text \<open>
  \<open>parseInt(req.query.x) || d\<close>: \<open>NaN\<close> and \<open>0\<close> give the default; an infinity is
  kept.
\<close>

definition parse_or :: "string option \<Rightarrow> int \<Rightarrow> number" where
  "parse_or x d =
     (case x of
        None \<Rightarrow> Value d
      | Some s \<Rightarrow>
          (case parseInt s of
             NaN \<Rightarrow> Value d
           | Infinity \<Rightarrow> Infinity
           | Value n \<Rightarrow> if n = 0 then Value d else Value n))"

text \<open>
  \<open>x - k\<close> and \<open>x * y\<close> in double arithmetic, as \<open>(page - 1) * limit\<close> uses them:
  the exact result is rounded; an infinity stays one, and zero times an infinity
  is \<open>NaN\<close>.
\<close>

definition js_minus :: "number \<Rightarrow> int \<Rightarrow> number" where
  "js_minus x k =
     (case x of Value n \<Rightarrow> to_number (n - k) | Infinity \<Rightarrow> Infinity | NaN \<Rightarrow> NaN)"

definition js_times :: "number \<Rightarrow> number \<Rightarrow> number" where
  "js_times x y =
     (case x of
        NaN \<Rightarrow> NaN
      | Infinity \<Rightarrow>
          (case y of
             NaN \<Rightarrow> NaN
           | Infinity \<Rightarrow> Infinity
           | Value m \<Rightarrow> if m = 0 then NaN else Infinity)
      | Value n \<Rightarrow>
          (case y of
             NaN \<Rightarrow> NaN
           | Infinity \<Rightarrow> if n = 0 then NaN else Infinity
           | Value m \<Rightarrow> to_number (n * m)))"

text \<open>\<open>s.split(',')\<close>.\<close>

fun split_on :: "char \<Rightarrow> string \<Rightarrow> string list" where
  "split_on sep [] = [[]]"
| "split_on sep (c # cs) =
     (if c = sep then [] # split_on sep cs
      else (case split_on sep cs of
              [] \<Rightarrow> [[c]]
            | w # ws \<Rightarrow> (c # w) # ws))"

section \<open>Queries on the post collection\<close>

text \<open>
  The filter object that the list routes hand to \<open>find\<close> and to \<open>countDocuments\<close>.
  A search term stands for the \<open>$or\<close> of its four clauses; the term is compiled to a
  case-insensitive regular expression by the regular-expression engine, an
  argument \<open>compile\<close> of the model that returns \<open>None\<close> for a malformed pattern.
\<close>

record post_filter =
  f_status :: "status option"
  f_category :: "nat option"
  f_tags_in :: "string list option"
  f_search :: "(string \<Rightarrow> bool) option"
  f_publishedAt_gte :: "int option"

definition post_matches :: "post_filter \<Rightarrow> post \<Rightarrow> bool" where
  "post_matches f p =
     ((case f_status f of None \<Rightarrow> True | Some s \<Rightarrow> status p = s)
      \<and> (case f_category f of None \<Rightarrow> True | Some c \<Rightarrow> category p = c)
      \<and> (case f_tags_in f of None \<Rightarrow> True | Some ts \<Rightarrow> list_ex (\<lambda>t. t \<in> set ts) (tags p))
      \<and> (case f_search f of
            None \<Rightarrow> True
          | Some re \<Rightarrow> re (title p) \<or> re (content p)
                       \<or> (case excerpt p of None \<Rightarrow> False | Some e \<Rightarrow> re e)
                       \<or> list_ex re (tags p))
      \<and> (case f_publishedAt_gte f of
            None \<Rightarrow> True
          | Some d \<Rightarrow> (case publishedAt p of None \<Rightarrow> False | Some t \<Rightarrow> d \<le> t)))"

datatype sortQuery =
    PublishedAt_asc | PublishedAt_desc | Views_likes_desc
  | CreatedAt_asc | CreatedAt_desc | Title_asc | Views_desc

text \<open>The store's order on a key that may be null: null comes first.\<close>

definition null_le :: "int option \<Rightarrow> int option \<Rightarrow> bool" where
  "null_le a b = (case a of None \<Rightarrow> True | Some x \<Rightarrow> (case b of None \<Rightarrow> False | Some y \<Rightarrow> x \<le> y))"

fun string_le :: "string \<Rightarrow> string \<Rightarrow> bool" where
  "string_le [] _ = True"
| "string_le (a # as) [] = False"
| "string_le (a # as) (b # bs) =
     ((of_char a :: nat) < of_char b \<or> (a = b \<and> string_le as bs))"

definition post_le :: "sortQuery \<Rightarrow> post \<Rightarrow> post \<Rightarrow> bool" where
  "post_le sq a b =
     (case sq of
        PublishedAt_asc \<Rightarrow> null_le (publishedAt a) (publishedAt b)
      | PublishedAt_desc \<Rightarrow> null_le (publishedAt b) (publishedAt a)
      | Views_likes_desc \<Rightarrow> views b < views a \<or> (views a = views b \<and> likes b \<le> likes a)
      | CreatedAt_asc \<Rightarrow> createdAt a \<le> createdAt b
      | CreatedAt_desc \<Rightarrow> createdAt b \<le> createdAt a
      | Title_asc \<Rightarrow> string_le (title a) (title b)
      | Views_desc \<Rightarrow> views b \<le> views a)"

text \<open>
  \<open>.skip(skip).limit(limit)\<close> on numbers that are finite: the store takes a skip
  and a limit that fit an integer of 64 bits, refuses a negative skip, and reads a
  negative limit as its absolute value. \<open>None\<close> is the error of the store.
\<close>

definition skip_limit :: "int \<Rightarrow> int \<Rightarrow> 'a list \<Rightarrow> 'a list option" where
  "skip_limit skip lmt docs =
     (if skip < 0 then None
      else if 2 ^ 63 \<le> skip then None
      else if 2 ^ 63 \<le> \<bar>lmt\<bar> then None
      else Some (take (nat \<bar>lmt\<bar>) (drop (nat skip) docs)))"

text \<open>
  \<open>Math.ceil(total / limit)\<close> on integers, \<open>limit\<close> not zero. The quotient of the
  doubles has the ceiling of the exact quotient when the count is below \<open>2^53\<close>,
  which every count of a collection is.
\<close>

definition ceil_div :: "int \<Rightarrow> int \<Rightarrow> int" where
  "ceil_div n lmt = - ((- n) div lmt)"

record pagination =
  currentPage :: int
  totalPages :: int
  totalPosts :: int
  hasNextPage :: bool
  hasPrevPage :: bool
  limit :: int

definition make_pagination :: "int \<Rightarrow> int \<Rightarrow> int \<Rightarrow> pagination" where
  "make_pagination page lmt n =
     (let pages = ceil_div n lmt
      in \<lparr> currentPage = page, totalPages = pages, totalPosts = n,
           hasNextPage = (page < pages), hasPrevPage = (page > 1), limit = lmt \<rparr>)"

section \<open>The post routes\<close>

definition status_of_string :: "string \<Rightarrow> status option" where
  "status_of_string s =
     (if s = ''draft'' then Some Draft
      else if s = ''published'' then Some Published
      else if s = ''archived'' then Some Archived
      else None)"

subsection \<open>\<open>GET /api/posts\<close>\<close>

record posts_query =
  qp_page :: "string option"
  qp_limit :: "string option"
  qp_category :: "string option"
  qp_tags :: "string option"
  qp_search :: "string option"
  qp_sort :: "string option"

text \<open>
  The validator chain of the route. \<open>tags\<close> and \<open>search\<close> are checked with
  \<open>isString\<close>, which holds of every string.
\<close>

definition validate_posts_query :: "posts_query \<Rightarrow> bool" where
  "validate_posts_query q =
     (optional (isInt (Some 1) None) (qp_page q)
      \<and> optional (isInt (Some 1) (Some 50)) (qp_limit q)
      \<and> optional isMongoId (qp_category q)
      \<and> optional (\<lambda>s. s \<in> set [''latest'', ''oldest'', ''popular'', ''trending''])
           (qp_sort q))"

text \<open>
  The filter of the route. \<open>now\<close> is \<open>Date.now()\<close>; \<open>None\<close> is the exception of
  \<open>new RegExp(search, 'i')\<close> on a malformed pattern, or the cast error of a
  category that is no object id, which the query raises when it runs. The handler
  answers both in the same way.
\<close>

definition posts_filter ::
  "(string \<Rightarrow> (string \<Rightarrow> bool) option) \<Rightarrow> int \<Rightarrow> posts_query \<Rightarrow> string
     \<Rightarrow> post_filter option" where
  "posts_filter compile now q sortBy =
     (let query = \<lparr> f_status = Some Published, f_category = None, f_tags_in = None,
                     f_search = None, f_publishedAt_gte = None \<rparr>;
          query1 = (case qp_category q of
                      None \<Rightarrow> query
                    | Some c \<Rightarrow> if c = [] then query
                               else query\<lparr>f_category := objectId c\<rparr>);
          query2 = (case qp_tags q of
                      None \<Rightarrow> query1
                    | Some t \<Rightarrow> if t = [] then query1
                               else query1\<lparr>f_tags_in :=
                                      Some (map (\<lambda>tag. toLowerCase (js_trim tag))
                                              (split_on CHR '','' t))\<rparr>);
          trending = (\<lambda>f. if sortBy = ''trending''
                           then f\<lparr>f_publishedAt_gte := Some (now - 7 * 24 * 60 * 60 * 1000)\<rparr>
                           else f);
          cast_error = (case qp_category q of
                          None \<Rightarrow> False
                        | Some c \<Rightarrow> if c = [] then False else objectId c = None)
      in case qp_search q of
           None \<Rightarrow> if cast_error then None else Some (trending query2)
         | Some s \<Rightarrow>
             if s = [] then (if cast_error then None else Some (trending query2))
             else (case compile s of
                     None \<Rightarrow> None
                   | Some re \<Rightarrow>
                       if cast_error then None
                       else Some (trending (query2\<lparr>f_search := Some re\<rparr>))))"

definition posts_sort :: "string \<Rightarrow> sortQuery" where
  "posts_sort sortBy =
     (if sortBy = ''oldest'' then PublishedAt_asc
      else if sortBy = ''popular'' then Views_likes_desc
      else if sortBy = ''trending'' then Views_likes_desc
      else PublishedAt_desc)"

text \<open>
  The handler. \<open>populate\<close> and \<open>select\<close> shape the documents returned and are not
  part of the model. When the page or the limit is an infinity, the skip or the
  limit that reaches the store is not finite, and the store refuses the query as
  it refuses a skip that is not finite: the last case of the handler.
\<close>

definition get_posts ::
  "(string \<Rightarrow> (string \<Rightarrow> bool) option) \<Rightarrow> int \<Rightarrow> posts_query \<Rightarrow> post list
     \<Rightarrow> (post list \<times> pagination) response" where
  "get_posts compile now q posts =
     (if \<not> validate_posts_query q then Failure 400 ''Validation failed''
      else
        (let page = parse_or (qp_page q) 1;
             lmt = parse_or (qp_limit q) 10;
             skip = js_times (js_minus page 1) lmt;
             sortBy = (case qp_sort q of None \<Rightarrow> ''latest'' | Some s \<Rightarrow> s)
         in case posts_filter compile now q sortBy of
              None \<Rightarrow> Failure 500 ''Server error while fetching posts''
            | Some query \<Rightarrow>
                (case (page, lmt, skip) of
                   (Value p, Value l, Value s) \<Rightarrow>
                     (case skip_limit s l
                             (sort_by (post_le (posts_sort sortBy))
                                (filter (post_matches query) posts)) of
                        None \<Rightarrow> Failure 500 ''Server error while fetching posts''
                      | Some docs \<Rightarrow>
                          Success 200
                            (docs,
                             make_pagination p l
                               (countDocuments (post_matches query) posts)))
                 | _ \<Rightarrow> Failure 500 ''Server error while fetching posts'')))"

subsection \<open>\<open>GET /api/posts/admin\<close>\<close>

record admin_posts_query =
  aq_page :: "string option"
  aq_limit :: "string option"
  aq_status :: "string option"
  aq_sort :: "string option"

definition validate_admin_query :: "admin_posts_query \<Rightarrow> bool" where
  "validate_admin_query q =
     (optional (isInt (Some 1) None) (aq_page q)
      \<and> optional (isInt (Some 1) (Some 50)) (aq_limit q)
      \<and> optional (\<lambda>s. s \<in> set [''draft'', ''published'', ''archived'']) (aq_status q)
      \<and> optional (\<lambda>s. s \<in> set [''latest'', ''oldest'', ''title'', ''views'']) (aq_sort q))"

definition admin_filter :: "admin_posts_query \<Rightarrow> post_filter" where
  "admin_filter q =
     (let query = \<lparr> f_status = None, f_category = None, f_tags_in = None,
                     f_search = None, f_publishedAt_gte = None \<rparr>
      in case aq_status q of
           None \<Rightarrow> query
         | Some s \<Rightarrow> if s = [] then query else query\<lparr>f_status := status_of_string s\<rparr>)"

definition admin_sort :: "string \<Rightarrow> sortQuery" where
  "admin_sort sortBy =
     (if sortBy = ''oldest'' then CreatedAt_asc
      else if sortBy = ''title'' then Title_asc
      else if sortBy = ''views'' then Views_desc
      else CreatedAt_desc)"

definition get_posts_admin ::
  "caller option \<Rightarrow> admin_posts_query \<Rightarrow> post list \<Rightarrow> (post list \<times> pagination) response" where
  "get_posts_admin user q posts =
     (if \<not> auth user then Rejected
      else if \<not> adminAuth user then Rejected
      else if \<not> validate_admin_query q then Failure 400 ''Validation failed''
      else
        (let page = parse_or (aq_page q) 1;
             lmt = parse_or (aq_limit q) 10;
             skip = js_times (js_minus page 1) lmt;
             sortBy = (case aq_sort q of None \<Rightarrow> ''latest'' | Some s \<Rightarrow> s);
             query = admin_filter q
         in case (page, lmt, skip) of
              (Value p, Value l, Value s) \<Rightarrow>
                (case skip_limit s l
                        (sort_by (post_le (admin_sort sortBy))
                           (filter (post_matches query) posts)) of
                   None \<Rightarrow> Failure 500 ''Server error while fetching posts''
                 | Some docs \<Rightarrow>
                     Success 200
                       (docs,
                        make_pagination p l
                          (countDocuments (post_matches query) posts)))
            | _ \<Rightarrow> Failure 500 ''Server error while fetching posts''))"

subsection \<open>\<open>PUT /api/posts/:id\<close>\<close>

text \<open>
  The request body: a field is \<open>None\<close> where the body leaves it \<open>undefined\<close>.
  \<open>status\<close> and \<open>category\<close> arrive as strings, checked by the validators.
\<close>

record post_body =
  b_title :: "string option"
  b_content :: "string option"
  b_excerpt :: "string option"
  b_category :: "string option"
  b_tags :: "string list option"
  b_status :: "string option"
  b_featuredImage :: "featuredImage option"
  b_seo :: "post_seo option"
  b_contentType :: "string option"
  b_scheduledFor :: "int option"
  b_affiliateLinks :: "affiliateLink list option"
  b_adSenseEnabled :: "bool option"
  b_commentsEnabled :: "bool option"

text \<open>The validators; \<open>title\<close> is trimmed before its length is checked.\<close>

definition validate_post_body :: "post_body \<Rightarrow> bool" where
  "validate_post_body b =
     (optional (\<lambda>t. length (js_trim t) \<le> 200) (b_title b)
      \<and> optional isMongoId (b_category b)
      \<and> optional (\<lambda>s. s \<in> set [''draft'', ''published'', ''archived'']) (b_status b)
      \<and> optional (\<lambda>e. length e \<le> 500) (b_excerpt b))"

text \<open>
  The body of \<open>updateFields.forEach\<close>: a field is assigned when the body defines
  it.
\<close>

definition assign :: "'a option \<Rightarrow> ('a \<Rightarrow> post \<Rightarrow> post) \<Rightarrow> post \<Rightarrow> post" where
  "assign x setter p = (case x of None \<Rightarrow> p | Some v \<Rightarrow> setter v p)"

text \<open>
  The thirteen fields of the allow-list, in its order. The schema's setters trim
  the title, and trim and lowercase each tag. A status outside the enumeration
  does not pass the validators, and a category that is no object id has ended
  the handler at the lookup of the category.
\<close>

definition apply_update :: "post_body \<Rightarrow> post \<Rightarrow> post" where
  "apply_update b p =
     foldl (\<lambda>d a. a d) p
       [assign (b_title b) (\<lambda>v d. d\<lparr>title := js_trim v\<rparr>),
        assign (b_content b) (\<lambda>v d. d\<lparr>content := v\<rparr>),
        assign (b_excerpt b) (\<lambda>v d. d\<lparr>excerpt := Some v\<rparr>),
        assign (b_category b)
          (\<lambda>v d. case objectId v of None \<Rightarrow> d | Some c \<Rightarrow> d\<lparr>category := c\<rparr>),
        assign (b_tags b) (\<lambda>v d. d\<lparr>tags := map (\<lambda>t. toLowerCase (js_trim t)) v\<rparr>),
        assign (b_status b)
          (\<lambda>v d. case status_of_string v of None \<Rightarrow> d | Some s \<Rightarrow> d\<lparr>status := s\<rparr>),
        assign (b_featuredImage b) (\<lambda>v d. d\<lparr>featuredImage := v\<rparr>),
        assign (b_seo b) (\<lambda>v d. d\<lparr>seo := v\<rparr>),
        assign (b_contentType b) (\<lambda>v d. d\<lparr>contentType := v\<rparr>),
        assign (b_scheduledFor b) (\<lambda>v d. d\<lparr>scheduledFor := Some v\<rparr>),
        assign (b_affiliateLinks b) (\<lambda>v d. d\<lparr>affiliateLinks := v\<rparr>),
        assign (b_adSenseEnabled b) (\<lambda>v d. d\<lparr>adSenseEnabled := v\<rparr>),
        assign (b_commentsEnabled b) (\<lambda>v d. d\<lparr>commentsEnabled := v\<rparr>)]"

text \<open>
  The ODM's change tracking after the assignments, for the three paths that the
  hook asks about: a path is modified when its value differs from the loaded one.
\<close>

definition isModified_after :: "post \<Rightarrow> post \<Rightarrow> string \<Rightarrow> bool" where
  "isModified_after loaded current path =
     (if path = ''title'' then title current \<noteq> title loaded
      else if path = ''content'' then content current \<noteq> content loaded
      else if path = ''status'' then status current \<noteq> status loaded
      else False)"

text \<open>
  \<open>if (req.body.category) { ... Category.findById(req.body.category) ... }\<close>: the
  result tells whether the check passes; \<open>None\<close> is the cast error that the lookup
  raises on a string that is no object id.
\<close>

definition category_check :: "string option \<Rightarrow> category list \<Rightarrow> bool option" where
  "category_check c categories =
     (case c of
        None \<Rightarrow> Some True
      | Some s \<Rightarrow>
          if s = [] then Some True
          else (case objectId s of
                  None \<Rightarrow> None
                | Some i \<Rightarrow> Some (findById cat_oid i categories \<noteq> None)))"

text \<open>
  The handler. \<open>accepts\<close> is the verdict of \<open>save()\<close> outside the hook: the ODM's
  validation of the document against the schema and the store's unique indexes,
  given the collection, the document before the hook and the document after it.
  A refused save throws, and the handler answers 500, as it does when the lookup
  of the category raises the cast error.
\<close>

definition update_post ::
  "(string \<Rightarrow> string) \<Rightarrow> (post list \<Rightarrow> post \<Rightarrow> post \<Rightarrow> bool) \<Rightarrow> nat \<Rightarrow> int
     \<Rightarrow> caller option \<Rightarrow> nat \<Rightarrow> post_body \<Rightarrow> category list \<Rightarrow> post list
     \<Rightarrow> post response \<times> post list" where
  "update_post slugify accepts now today user i body categories posts =
     (if \<not> auth user then (Rejected, posts)
      else if \<not> adminAuth user then (Rejected, posts)
      else if \<not> validate_post_body body then (Failure 400 ''Validation failed'', posts)
      else
        (case findById oid i posts of
           None \<Rightarrow> (Failure 404 ''Post not found'', posts)
         | Some post \<Rightarrow>
             (case category_check (b_category body) categories of
                None \<Rightarrow> (Failure 500 ''Server error while updating post'', posts)
              | Some found \<Rightarrow>
                  if \<not> found then (Failure 400 ''Invalid category'', posts)
                  else
                    (let assigned = apply_update body post;
                         saved = post_pre_save slugify (isModified_after post assigned) False
                                   now today assigned
                     in if accepts posts assigned saved
                        then (Success 200 saved, updateById oid i (\<lambda>_. saved) posts)
                        else (Failure 500 ''Server error while updating post'', posts)))))"

subsection \<open>\<open>POST /api/posts\<close>\<close>

text \<open>
  The body has the thirteen fields of the update. The validators require a title
  and a content that are not empty and a category id; \<open>notEmpty\<close> runs before the
  title is trimmed.
\<close>

definition validate_new_post :: "post_body \<Rightarrow> bool" where
  "validate_new_post b =
     ((case b_title b of None \<Rightarrow> False | Some t \<Rightarrow> t \<noteq> [] \<and> length (js_trim t) \<le> 200)
      \<and> (case b_content b of None \<Rightarrow> False | Some c \<Rightarrow> c \<noteq> [])
      \<and> (case b_category b of None \<Rightarrow> False | Some c \<Rightarrow> isMongoId c)
      \<and> optional (\<lambda>s. s \<in> set [''draft'', ''published'', ''archived'']) (b_status b)
      \<and> optional (\<lambda>e. length e \<le> 500) (b_excerpt b))"

text \<open>
  \<open>new Post({...})\<close> with the defaults of the handler and of the schema; \<open>fresh\<close> is
  the id and \<open>created\<close> the \<open>createdAt\<close> that the ODM gives the document, and
  \<open>category_id\<close> the category of the body cast to an object id.
\<close>

definition new_post :: "nat \<Rightarrow> int \<Rightarrow> nat \<Rightarrow> nat \<Rightarrow> post_body \<Rightarrow> post" where
  "new_post fresh created user_ident category_id b =
     \<lparr> oid = fresh,
       title = js_trim (case b_title b of None \<Rightarrow> [] | Some t \<Rightarrow> t),
       slug = [],
       content = (case b_content b of None \<Rightarrow> [] | Some c \<Rightarrow> c),
       excerpt = b_excerpt b,
       featuredImage = (case b_featuredImage b of
                          None \<Rightarrow> \<lparr>url = None, alt = [], caption = []\<rparr>
                        | Some v \<Rightarrow> v),
       category = category_id,
       tags = (case b_tags b of
                 None \<Rightarrow> []
               | Some v \<Rightarrow> map (\<lambda>t. toLowerCase (js_trim t)) v),
       author = user_ident,
       status = (case b_status b of
                   None \<Rightarrow> Draft
                 | Some v \<Rightarrow> (case status_of_string v of None \<Rightarrow> Draft | Some s \<Rightarrow> s)),
       publishedAt = None,
       scheduledFor = b_scheduledFor b,
       views = 0,
       likes = 0,
       readingTime = 0,
       seo = (case b_seo b of
                None \<Rightarrow> \<lparr>metaTitle = None, metaDescription = None, metaKeywords = [],
                         ogImage = None, canonicalUrl = None\<rparr>
              | Some v \<Rightarrow> v),
       contentType = (case b_contentType b of
                        None \<Rightarrow> ''markdown''
                      | Some v \<Rightarrow> if v = [] then ''markdown'' else v),
       commentsEnabled = (case b_commentsEnabled b of None \<Rightarrow> True | Some v \<Rightarrow> v),
       affiliateLinks = (case b_affiliateLinks b of None \<Rightarrow> [] | Some v \<Rightarrow> v),
       adSenseEnabled = (case b_adSenseEnabled b of None \<Rightarrow> True | Some v \<Rightarrow> v),
       createdAt = created \<rparr>"

text \<open>
  The handler. The document is new, and the constructor has set the paths
  \<open>title\<close>, \<open>content\<close> and \<open>status\<close>, so the change tracking reports each of them
  as modified. The author is \<open>req.user._id\<close>, which \<open>auth\<close> has set when the
  handler runs. The lookup of a category that is no object id raises the cast
  error, and the handler answers 500.
\<close>

definition create_post ::
  "(string \<Rightarrow> string) \<Rightarrow> (post list \<Rightarrow> post \<Rightarrow> post \<Rightarrow> bool) \<Rightarrow> nat \<Rightarrow> nat \<Rightarrow> int
     \<Rightarrow> caller option \<Rightarrow> post_body \<Rightarrow> category list \<Rightarrow> post list
     \<Rightarrow> post response \<times> post list" where
  "create_post slugify accepts fresh now today user body categories posts =
     (if \<not> auth user then (Rejected, posts)
      else if \<not> adminAuth user then (Rejected, posts)
      else if \<not> validate_new_post body then (Failure 400 ''Validation failed'', posts)
      else
        (case objectId (case b_category body of None \<Rightarrow> [] | Some c \<Rightarrow> c) of
           None \<Rightarrow> (Failure 500 ''Server error while creating post'', posts)
         | Some category_id \<Rightarrow>
             if findById cat_oid category_id categories = None
             then (Failure 400 ''Invalid category'', posts)
             else
               (let post = new_post fresh today
                             (case user of None \<Rightarrow> 0 | Some u \<Rightarrow> user_id u)
                             category_id body;
                    saved = post_pre_save slugify (\<lambda>path. True) True now today post
                in if accepts posts post saved
                   then (Success 201 saved, posts @ [saved])
                   else (Failure 500 ''Server error while creating post'', posts))))"

subsection \<open>\<open>POST /api/posts/:id/like\<close>\<close>

text \<open>\<open>incrementLikes\<close>: \<open>updateOne({$inc: {likes: 1}})\<close> on the document's id.\<close>

definition incrementLikes :: "post \<Rightarrow> post list \<Rightarrow> post list" where
  "incrementLikes post posts = updateById oid (oid post) (\<lambda>d. d\<lparr>likes := likes d + 1\<rparr>) posts"

text \<open>
  The handler after \<open>findById\<close> has returned \<open>post\<close>: the increment is sent to the
  store, and the response is computed from the document in memory. \<open>posts\<close> is the
  collection at the time of the increment.
\<close>

definition like_fetched :: "post \<Rightarrow> post list \<Rightarrow> int response \<times> post list" where
  "like_fetched post posts = (Success 200 (likes post + 1), incrementLikes post posts)"

definition like_post :: "nat \<Rightarrow> post list \<Rightarrow> int response \<times> post list" where
  "like_post i posts =
     (case findById oid i posts of
        None \<Rightarrow> (Failure 404 ''Post not found'', posts)
      | Some post \<Rightarrow> like_fetched post posts)"

section \<open>The category routes\<close>

subsection \<open>\<open>GET /api/categories/:slug/posts\<close>\<close>

record category_posts_query =
  cq_page :: "string option"
  cq_limit :: "string option"

text \<open>
  The route has no validator chain: the two parameters are parsed as they come.
  The schema declares the slug \<open>lowercase\<close>, and the ODM applies that setter to the
  slug of the query filter. The store refuses a skip or a limit that is not finite,
  as in the post routes.
\<close>

definition get_category_posts ::
  "string \<Rightarrow> category_posts_query \<Rightarrow> category list \<Rightarrow> post list
     \<Rightarrow> (category \<times> post list \<times> pagination) response" where
  "get_category_posts slug_param q categories posts =
     (let page = parse_or (cq_page q) 1;
          lmt = parse_or (cq_limit q) 10;
          skip = js_times (js_minus page 1) lmt
      in case find (\<lambda>c. cat_slug c = toLowerCase slug_param \<and> isActive c) categories of
           None \<Rightarrow> Failure 404 ''Category not found''
         | Some cat \<Rightarrow>
             (let query = \<lparr> f_status = Some Published, f_category = Some (cat_oid cat),
                             f_tags_in = None, f_search = None, f_publishedAt_gte = None \<rparr>
              in case (page, lmt, skip) of
                   (Value p, Value l, Value s) \<Rightarrow>
                     (case skip_limit s l
                             (sort_by (post_le PublishedAt_desc)
                                (filter (post_matches query) posts)) of
                        None \<Rightarrow> Failure 500 ''Server error while fetching category posts''
                      | Some docs \<Rightarrow>
                          Success 200
                            (cat, docs,
                             make_pagination p l
                               (countDocuments (post_matches query) posts)))
                 | _ \<Rightarrow> Failure 500 ''Server error while fetching category posts''))"

subsection \<open>\<open>DELETE /api/categories/:id\<close>\<close>

text \<open>
  The handler returns the response with the two collections it can reach, the
  categories and the posts.
\<close>

definition delete_category ::
  "caller option \<Rightarrow> nat \<Rightarrow> category list \<Rightarrow> post list
     \<Rightarrow> string response \<times> category list \<times> post list" where
  "delete_category user i categories posts =
     (if \<not> auth user then (Rejected, categories, posts)
      else if \<not> adminAuth user then (Rejected, categories, posts)
      else
        (case findById cat_oid i categories of
           None \<Rightarrow> (Failure 404 ''Category not found'', categories, posts)
         | Some cat \<Rightarrow>
             (let postCount = countDocuments (\<lambda>p. category p = cat_oid cat) posts
              in if postCount > 0
                 then (Failure 400
                         (''Cannot delete category. It has '' @ toString (nat postCount)
                            @ '' posts. Please move or delete the posts first.''),
                       categories, posts)
                 else
                   (let subcategoryCount =
                          countDocuments (\<lambda>c. parentCategory c = Some (cat_oid cat)) categories
                    in if subcategoryCount > 0
                       then (Failure 400
                               (''Cannot delete category. It has ''
                                  @ toString (nat subcategoryCount)
                                  @ '' subcategories. Please move or delete the subcategories first.''),
                             categories, posts)
                       else (Success 200 ''Category deleted successfully'',
                             deleteById cat_oid i categories, posts)))))"

section \<open>Predicates and request sequences used in the statements\<close>

text \<open>
  The regular expression \<open>/<[^>]*>/\<close> matches somewhere in \<open>s\<close>: a \<open>>\<close> follows
  the first \<open><\<close>.
\<close>

definition contains_tag :: "string \<Rightarrow> bool" where
  "contains_tag s = (CHR ''>'' \<in> set (dropWhile (\<lambda>c. c \<noteq> CHR ''<'') s))"

text \<open>Update requests served one after the other, each with its own clock readings.\<close>

record update_request =
  r_now :: nat
  r_today :: int
  r_user :: "caller option"
  r_id :: nat
  r_body :: post_body

fun update_sequence ::
  "(string \<Rightarrow> string) \<Rightarrow> (post list \<Rightarrow> post \<Rightarrow> post \<Rightarrow> bool) \<Rightarrow> category list
     \<Rightarrow> update_request list \<Rightarrow> post list \<Rightarrow> post list" where
  "update_sequence slugify accepts categories [] posts = posts"
| "update_sequence slugify accepts categories (r # rs) posts =
     update_sequence slugify accepts categories rs
       (snd (update_post slugify accepts (r_now r) (r_today r) (r_user r) (r_id r)
               (r_body r) categories posts))"

text \<open>
  The pagination identities of the specification:
  \<open>totalPages = ceil(total / limit)\<close>, \<open>hasNextPage = (currentPage < totalPages)\<close>
  and \<open>hasPrevPage = (currentPage > 1)\<close>, for the count \<open>n\<close> of matching documents.
\<close>

definition pagination_identity :: "pagination \<Rightarrow> int \<Rightarrow> bool" where
  "pagination_identity pg n =
     (totalPosts pg = n
      \<and> limit pg \<noteq> 0
      \<and> totalPages pg = \<lceil>real_of_int n / real_of_int (limit pg)\<rceil>
      \<and> hasNextPage pg = (currentPage pg < totalPages pg)
      \<and> hasPrevPage pg = (currentPage pg > 1))"

section \<open>Example documents\<close>

text \<open>
  Documents and requests for the concrete runs: an administrator, a category, a
  draft post that has never been published, and a request body that defines no
  field.
\<close>

abbreviation admin :: "caller option" where
  "admin \<equiv> Some \<lparr>user_id = 9, is_admin = True\<rparr>"

abbreviation no_seo :: post_seo where
  "no_seo \<equiv> \<lparr>metaTitle = None, metaDescription = None, metaKeywords = [],
              ogImage = None, canonicalUrl = None\<rparr>"

abbreviation seo_of :: "string \<Rightarrow> string \<Rightarrow> post_seo" where
  "seo_of t d \<equiv> \<lparr>metaTitle = Some t, metaDescription = Some d, metaKeywords = [],
                  ogImage = None, canonicalUrl = None\<rparr>"

abbreviation tech :: category where
  "tech \<equiv> \<lparr>cat_oid = 3, name = ''Tech'', cat_slug = ''tech'', description = None,
            color = ''#3B82F6'', icon = ''folder'', cat_image = None,
            parentCategory = None, isActive = True, sortOrder = 0,
            cat_seo = \<lparr>metaTitle = None, metaDescription = None, metaKeywords = []\<rparr>,
            postCount = 0, totalViews = 0\<rparr>"

abbreviation hello_post :: post where
  "hello_post \<equiv>
     \<lparr>oid = 7, title = ''Hello, World!'', slug = ''hello-world-2345'',
      content = ''<p>Hello</p> world'', excerpt = None,
      featuredImage = \<lparr>url = None, alt = [], caption = []\<rparr>,
      category = 3, tags = [], author = 9, status = Draft,
      publishedAt = None, scheduledFor = None, views = 0, likes = 0,
      readingTime = 2, seo = no_seo, contentType = ''markdown'',
      commentsEnabled = True, affiliateLinks = [], adSenseEnabled = True,
      createdAt = 100\<rparr>"

abbreviation no_body :: post_body where
  "no_body \<equiv>
     \<lparr>b_title = None, b_content = None, b_excerpt = None, b_category = None,
      b_tags = None, b_status = None, b_featuredImage = None, b_seo = None,
      b_contentType = None, b_scheduledFor = None, b_affiliateLinks = None,
      b_adSenseEnabled = None, b_commentsEnabled = None\<rparr>"

section \<open>Properties of the comment routes\<close>

lemma mset_insert_by: "mset (insert_by le x xs) = add_mset x (mset xs)"
  by (induction xs) auto

lemma mset_sort_by: "mset (sort_by le xs) = mset xs"
  unfolding sort_by_def by (induction xs) (auto simp: mset_insert_by)

lemma set_sort_by: "set (sort_by le xs) = set xs"
  using mset_sort_by [of le xs] by (metis set_mset_mset)

text \<open>
  Claim C3 says that approving and deleting a comment succeed only for a caller who
  passed the administrator check, and that any other caller gets an authorization
  error while no comment changes. The handlers run no such check: for an anonymous
  caller, \<open>PUT /comments/1/approve\<close> answers 200 and approves the comment, and
  \<open>DELETE /comments/1\<close> answers 200 and removes it.
\<close>

theorem C3_moderation_open_to_anonymous:
  "\<not> auth None \<and> \<not> adminAuth None \<and>
   approve_comment None 1
     [\<lparr>com_oid = 1, postId = 7, com_author = ''eve'', email = ''e@x.org'',
       com_content = ''spam'', parentId = None, isApproved = False, com_createdAt = 5\<rparr>]
   = (Success 200
        \<lparr>com_oid = 1, postId = 7, com_author = ''eve'', email = ''e@x.org'',
         com_content = ''spam'', parentId = None, isApproved = True, com_createdAt = 5\<rparr>,
      [\<lparr>com_oid = 1, postId = 7, com_author = ''eve'', email = ''e@x.org'',
        com_content = ''spam'', parentId = None, isApproved = True, com_createdAt = 5\<rparr>]) \<and>
   delete_comment None 1
     [\<lparr>com_oid = 1, postId = 7, com_author = ''eve'', email = ''e@x.org'',
       com_content = ''spam'', parentId = None, isApproved = False, com_createdAt = 5\<rparr>]
   = (Success 200 ''Comment deleted'', [])"
  by (simp add: auth_def adminAuth_def approve_comment_def delete_comment_def findById_def)

text \<open>
  Claim C9: a comment created through \<open>POST /comments\<close> is stored unapproved; the
  public list of a post holds exactly that post's approved comments; so the new
  comment is in no public list until it is approved.
\<close>

theorem C9_new_comment_hidden:
  assumes "post_comment valid fresh now body comments = (Success code c, comments')"
  shows "comments' = comments @ [c] \<and> \<not> isApproved c
         \<and> (\<exists>shown. get_comments pid comments' = Success 200 shown
               \<and> mset shown = mset (filter (\<lambda>d. postId d = pid \<and> isApproved d) comments')
               \<and> c \<notin> set shown)"
proof -
  from assms have stored: "comments' = comments @ [c]" and unapproved: "\<not> isApproved c"
    by (auto simp: post_comment_def Let_def split: if_splits)
  define shown where
    "shown = sort_by (\<lambda>a b. com_createdAt a \<ge> com_createdAt b)
               (filter (\<lambda>d. postId d = pid \<and> isApproved d) comments')"
  have resp: "get_comments pid comments' = Success 200 shown"
    by (simp add: get_comments_def shown_def)
  have exact: "mset shown = mset (filter (\<lambda>d. postId d = pid \<and> isApproved d) comments')"
    by (simp add: shown_def mset_sort_by)
  have "c \<notin> set shown"
    using unapproved by (auto simp: shown_def set_sort_by)
  with stored unapproved resp exact show ?thesis by blast
qed

theorem C9_new_comment_hidden_witness:
  "post_comment (\<lambda>_. True) 2 10
     \<lparr>cb_postId = Some 7, cb_author = Some ''bob'', cb_email = Some ''b@x.org'',
      cb_content = Some ''hi'', cb_parentId = None\<rparr> []
   = (Success 201
        \<lparr>com_oid = 2, postId = 7, com_author = ''bob'', email = ''b@x.org'',
         com_content = ''hi'', parentId = None, isApproved = False, com_createdAt = 10\<rparr>,
      [\<lparr>com_oid = 2, postId = 7, com_author = ''bob'', email = ''b@x.org'',
        com_content = ''hi'', parentId = None, isApproved = False, com_createdAt = 10\<rparr>])
   \<and> get_comments 7
        [\<lparr>com_oid = 2, postId = 7, com_author = ''bob'', email = ''b@x.org'',
          com_content = ''hi'', parentId = None, isApproved = False, com_createdAt = 10\<rparr>]
      = Success 200 []"
proof -
  have run: "post_comment (\<lambda>_. True) 2 10
       \<lparr>cb_postId = Some 7, cb_author = Some ''bob'', cb_email = Some ''b@x.org'',
        cb_content = Some ''hi'', cb_parentId = None\<rparr> []
     = (Success 201
          \<lparr>com_oid = 2, postId = 7, com_author = ''bob'', email = ''b@x.org'',
           com_content = ''hi'', parentId = None, isApproved = False, com_createdAt = 10\<rparr>,
        [\<lparr>com_oid = 2, postId = 7, com_author = ''bob'', email = ''b@x.org'',
          com_content = ''hi'', parentId = None, isApproved = False, com_createdAt = 10\<rparr>])"
    by (simp add: post_comment_def falsy_def Let_def)
  from C9_new_comment_hidden [OF run, of 7] run show ?thesis
    by (auto simp: get_comments_def)
qed

section \<open>Properties of the post hook\<close>

lemma lower_char_idem: "lower_char (lower_char c) = lower_char c"
  by (simp add: lower_char_def is_upper_def)

lemma digit_char_code: "d < 10 \<Longrightarrow> (of_char (digit_char d) :: nat) = 48 + d"
  by (simp add: digit_char_def)

lemma lower_digit: "d < 10 \<Longrightarrow> lower_char (digit_char d) = digit_char d"
  by (simp add: lower_char_def is_upper_def digit_char_code)

lemma toString_digits: "c \<in> set (toString n) \<Longrightarrow> \<exists>d<10. c = digit_char d"
proof (induction n arbitrary: c rule: toString.induct)
  case (1 n)
  show ?case
  proof (cases "n < 10")
    case True
    with "1.prems" show ?thesis by (auto simp: toString.simps [of n])
  next
    case False
    with "1.prems" have "c \<in> set (toString (n div 10)) \<or> c = digit_char (n mod 10)"
      by (auto simp: toString.simps [of n])
    then show ?thesis
    proof
      assume "c \<in> set (toString (n div 10))"
      with False "1.IH" show ?thesis by blast
    next
      assume "c = digit_char (n mod 10)"
      moreover have "n mod 10 < 10" by simp
      ultimately show ?thesis by blast
    qed
  qed
qed

lemma toString_last4:
  assumes "1000 \<le> n"
  shows "slice_last 4 (toString n) =
     [digit_char (n div 1000 mod 10), digit_char (n div 100 mod 10),
      digit_char (n div 10 mod 10), digit_char (n mod 10)]"
proof -
  have step: "toString m = toString (m div 10) @ [digit_char (m mod 10)]" if "10 \<le> m" for m
    using that by (subst toString.simps) simp
  have last1: "\<exists>pre. toString m = pre @ [digit_char (m mod 10)]" for m
  proof (cases "m < 10")
    case True
    then show ?thesis by (subst toString.simps) simp
  next
    case False
    then show ?thesis using step [of m] by auto
  qed
  from assms have big: "10 \<le> n" "10 \<le> n div 10" "10 \<le> n div 100" by auto
  have shift: "n div 10 div 10 = n div 100" "n div 100 div 10 = n div 1000"
    by (simp_all add: div_mult2_eq)
  obtain pre where pre: "toString (n div 1000) = pre @ [digit_char (n div 1000 mod 10)]"
    using last1 by blast
  have "toString n = toString (n div 1000) @
      [digit_char (n div 100 mod 10), digit_char (n div 10 mod 10), digit_char (n mod 10)]"
    using step [OF big(1)] step [OF big(2)] step [OF big(3)] shift by simp
  with pre show ?thesis by (simp add: slice_last_def)
qed

lemma lower_timestamp: "toLowerCase (slice_last 4 (toString n)) = slice_last 4 (toString n)"
proof -
  have "lower_char c = c" if "c \<in> set (slice_last 4 (toString n))" for c
  proof -
    from that have "c \<in> set (toString n)"
      unfolding slice_last_def by (rule in_set_dropD)
    then obtain d where "d < 10" "c = digit_char d"
      using toString_digits by blast
    then show ?thesis by (simp add: lower_digit)
  qed
  then show ?thesis
    unfolding toLowerCase_def by (simp add: map_idI)
qed

lemma lower_new_slug:
  "toLowerCase (toLowerCase s @ ''-'' @ slice_last 4 (toString n))
     = toLowerCase s @ ''-'' @ slice_last 4 (toString n)"
proof -
  have ts: "map lower_char (slice_last 4 (toString n)) = slice_last 4 (toString n)"
    using lower_timestamp [of n] by (simp add: toLowerCase_def)
  have dash: "lower_char CHR ''-'' = CHR ''-''"
    by (simp add: lower_char_def is_upper_def)
  show ?thesis
    by (simp add: toLowerCase_def lower_char_idem ts dash)
qed

lemma slug_block_fields:
  "title (slug_block sl m new n p) = title p"
  "content (slug_block sl m new n p) = content p"
  "excerpt (slug_block sl m new n p) = excerpt p"
  "status (slug_block sl m new n p) = status p"
  "publishedAt (slug_block sl m new n p) = publishedAt p"
  "seo (slug_block sl m new n p) = seo p"
  "oid (slug_block sl m new n p) = oid p"
  by (simp_all add: slug_block_def set_slug_def Let_def)

lemma slug_block_slug:
  "slug (slug_block sl m new n p) =
     (if new then toLowerCase (sl (title p)) @ ''-'' @ slice_last 4 (toString n)
      else if m ''title'' then toLowerCase (sl (title p))
      else slug p)"
  using lower_new_slug [of "sl (title p)" n]
  by (simp add: slug_block_def set_slug_def Let_def)

lemma excerpt_block_fields:
  "title (excerpt_block m p) = title p"
  "content (excerpt_block m p) = content p"
  "slug (excerpt_block m p) = slug p"
  "status (excerpt_block m p) = status p"
  "publishedAt (excerpt_block m p) = publishedAt p"
  "seo (excerpt_block m p) = seo p"
  "oid (excerpt_block m p) = oid p"
  by (simp_all add: excerpt_block_def Let_def)

lemma readingTime_block_fields:
  "title (readingTime_block m p) = title p"
  "content (readingTime_block m p) = content p"
  "slug (readingTime_block m p) = slug p"
  "excerpt (readingTime_block m p) = excerpt p"
  "status (readingTime_block m p) = status p"
  "publishedAt (readingTime_block m p) = publishedAt p"
  "seo (readingTime_block m p) = seo p"
  "oid (readingTime_block m p) = oid p"
  by (simp_all add: readingTime_block_def Let_def)

lemma publishedAt_block_fields:
  "title (publishedAt_block m t p) = title p"
  "content (publishedAt_block m t p) = content p"
  "slug (publishedAt_block m t p) = slug p"
  "excerpt (publishedAt_block m t p) = excerpt p"
  "status (publishedAt_block m t p) = status p"
  "seo (publishedAt_block m t p) = seo p"
  "oid (publishedAt_block m t p) = oid p"
  by (simp_all add: publishedAt_block_def)

lemma seo_block_fields:
  "title (seo_block p) = title p"
  "content (seo_block p) = content p"
  "slug (seo_block p) = slug p"
  "excerpt (seo_block p) = excerpt p"
  "status (seo_block p) = status p"
  "publishedAt (seo_block p) = publishedAt p"
  "oid (seo_block p) = oid p"
  by (simp_all add: seo_block_def Let_def)

lemmas block_fields =
  slug_block_fields excerpt_block_fields readingTime_block_fields
  publishedAt_block_fields seo_block_fields

lemma pre_save_slug:
  "slug (post_pre_save sl m new n t p) = slug (slug_block sl m new n p)"
  by (simp add: post_pre_save_def block_fields)

lemma pre_save_excerpt:
  "excerpt (post_pre_save sl m new n t p) = excerpt (excerpt_block m p)"
  by (simp add: post_pre_save_def block_fields excerpt_block_def Let_def)

lemma pre_save_publishedAt:
  "publishedAt (post_pre_save sl m new n t p) = publishedAt (publishedAt_block m t p)"
  by (simp add: post_pre_save_def block_fields publishedAt_block_def)

lemma pre_save_oid: "oid (post_pre_save sl m new n t p) = oid p"
  by (simp add: post_pre_save_def block_fields)

lemma strip_tags_no_tag: "\<not> contains_tag (strip_tags s)"
proof (induction s rule: strip_tags.induct)
  case 1
  show ?case by (simp add: contains_tag_def)
next
  case (2 c cs)
  show ?case
  proof (cases "c = CHR ''<''")
    case False
    with 2 show ?thesis by (simp add: contains_tag_def)
  next
    case open_tag: True
    show ?thesis
    proof (cases "dropWhile (\<lambda>d. d \<noteq> CHR ''>'') cs")
      case Nil
      then have "CHR ''>'' \<notin> set cs"
        by (auto simp: dropWhile_eq_Nil_conv)
      with open_tag Nil show ?thesis
        by (simp add: contains_tag_def del: dropWhile_eq_Nil_conv)
    next
      case (Cons x rest)
      with open_tag 2 show ?thesis by simp
    qed
  qed
qed

text \<open>
  Claim C8: on a save the excerpt is derived exactly when the content was modified
  and the excerpt is empty; the derived excerpt is the content with its tags
  stripped, cut to 200 characters, with an ellipsis when something was cut; an
  excerpt that is present is never overwritten.
\<close>

theorem C8_excerpt_derivation:
  "excerpt (post_pre_save slugify isModified isNew now today p) =
     (if isModified ''content'' \<and> falsy (excerpt p)
      then Some (if length (strip_tags (content p)) \<le> 200 then strip_tags (content p)
                 else take 200 (strip_tags (content p)) @ ''...'')
      else excerpt p)
   \<and> \<not> contains_tag (strip_tags (content p))
   \<and> (\<not> falsy (excerpt p) \<longrightarrow>
        excerpt (post_pre_save slugify isModified isNew now today p) = excerpt p)"
proof -
  have "excerpt (excerpt_block isModified p) =
     (if isModified ''content'' \<and> falsy (excerpt p)
      then Some (if length (strip_tags (content p)) \<le> 200 then strip_tags (content p)
                 else take 200 (strip_tags (content p)) @ ''...'')
      else excerpt p)"
    by (simp add: excerpt_block_def Let_def substring0_def)
  then show ?thesis
    by (simp add: pre_save_excerpt strip_tags_no_tag)
qed

theorem C8_excerpt_derivation_witness:
  "\<not> falsy (Some ''Summary'')
   \<and> excerpt (post_pre_save (\<lambda>s. s) (\<lambda>_. True) False 0 0
        (hello_post\<lparr>excerpt := Some ''Summary''\<rparr>))
     = Some ''Summary''
   \<and> excerpt (post_pre_save (\<lambda>s. s) (\<lambda>_. True) False 0 0
        (hello_post\<lparr>excerpt := None\<rparr>))
     = Some ''Hello world''"
  using C8_excerpt_derivation [where slugify = "\<lambda>s. s" and isModified = "\<lambda>_. True"
      and isNew = False and now = 0 and today = 0
      and p = "(hello_post\<lparr>excerpt := Some ''Summary''\<rparr>)"]
    C8_excerpt_derivation [where slugify = "\<lambda>s. s" and isModified = "\<lambda>_. True"
      and isNew = False and now = 0 and today = 0
      and p = "(hello_post\<lparr>excerpt := None\<rparr>)"]
  by (simp add: falsy_def)

section \<open>Properties of the post routes\<close>

lemma findById_key: "findById key i ds = Some d \<Longrightarrow> key d = i"
  by (auto simp: findById_def find_Some_iff)

lemma findById_updateById:
  assumes "\<And>d. key d = i \<Longrightarrow> key (f d) = i"
  shows "findById key j (updateById key i f ds) =
           (if j = i then map_option f (findById key i ds) else findById key j ds)"
  using assms by (induction ds) (auto simp: findById_def)

lemma foldl_keeps:
  assumes "\<And>a d. a \<in> set as \<Longrightarrow> f (a d) = f d"
  shows "f (foldl (\<lambda>d a. a d) p as) = f p"
  using assms by (induction as arbitrary: p) simp_all

lemma apply_update_publishedAt: "publishedAt (apply_update b p) = publishedAt p"
  unfolding apply_update_def
proof (rule foldl_keeps, goal_cases)
  case (1 a d)
  then show ?case by (auto simp: assign_def split: option.splits)
qed

lemma apply_update_oid: "oid (apply_update b p) = oid p"
  unfolding apply_update_def
proof (rule foldl_keeps, goal_cases)
  case (1 a d)
  then show ?case by (auto simp: assign_def split: option.splits)
qed

lemmas apply_update_keeps = apply_update_publishedAt apply_update_oid

lemma publishedAt_block_value:
  "publishedAt (publishedAt_block m t p) =
     (if m ''status'' \<and> status p = Published \<and> publishedAt p = None then Some t
      else publishedAt p)"
  by (simp add: publishedAt_block_def)

lemma pre_save_publishedAt_value:
  "publishedAt (post_pre_save sl m new n t p) =
     (if m ''status'' \<and> status p = Published \<and> publishedAt p = None then Some t
      else publishedAt p)"
  by (simp add: post_pre_save_def block_fields publishedAt_block_value)

lemma update_post_keeps_publishedAt:
  assumes "findById oid j posts = Some p" and "publishedAt p = Some t"
  shows "\<exists>p'. findById oid j (snd (update_post sl acc n td u i b cats posts)) = Some p'
              \<and> publishedAt p' = Some t"
proof (cases "\<exists>saved. snd (update_post sl acc n td u i b cats posts)
                        = updateById oid i (\<lambda>_. saved) posts
                      \<and> oid saved = i
                      \<and> (\<forall>q. findById oid i posts = Some q \<longrightarrow> publishedAt q \<noteq> None
                               \<longrightarrow> publishedAt saved = publishedAt q)")
  case True
  then obtain saved where
    store: "snd (update_post sl acc n td u i b cats posts) = updateById oid i (\<lambda>_. saved) posts"
    and key: "oid saved = i"
    and kept: "\<And>q. findById oid i posts = Some q \<Longrightarrow> publishedAt q \<noteq> None
                  \<Longrightarrow> publishedAt saved = publishedAt q"
    by blast
  have look: "findById oid j (updateById oid i (\<lambda>_. saved) posts) =
                (if j = i then map_option (\<lambda>_. saved) (findById oid i posts)
                 else findById oid j posts)"
    by (rule findById_updateById) (simp add: key)
  show ?thesis
  proof (cases "j = i")
    case True
    with assms kept [of p] look store show ?thesis by simp
  next
    case False
    with assms look store show ?thesis by simp
  qed
next
  case False
  have "snd (update_post sl acc n td u i b cats posts) = posts"
  proof (rule ccontr)
    assume changed: "snd (update_post sl acc n td u i b cats posts) \<noteq> posts"
    then obtain q where q: "findById oid i posts = Some q"
      by (cases "findById oid i posts") (auto simp: update_post_def split: if_splits option.splits)
    define saved where
      "saved = post_pre_save sl (isModified_after q (apply_update b q)) False n td
                 (apply_update b q)"
    from changed q have store:
      "snd (update_post sl acc n td u i b cats posts) = updateById oid i (\<lambda>_. saved) posts"
      by (auto simp: update_post_def Let_def saved_def split: if_splits option.splits)
    have "oid saved = i"
      using findById_key [OF q] by (simp add: saved_def pre_save_oid apply_update_keeps)
    moreover have "publishedAt q \<noteq> None \<Longrightarrow> publishedAt saved = publishedAt q"
      by (simp add: saved_def pre_save_publishedAt_value apply_update_keeps)
    ultimately show False using False store q by auto
  qed
  with assms show ?thesis by simp
qed

lemma update_sequence_keeps_publishedAt:
  assumes "findById oid j posts = Some p" and "publishedAt p = Some t"
  shows "\<exists>p'. findById oid j (update_sequence sl acc cats reqs posts) = Some p'
              \<and> publishedAt p' = Some t"
  using assms
proof (induction reqs arbitrary: posts p)
  case Nil
  then show ?case by simp
next
  case (Cons r rs)
  obtain p1 where
    "findById oid j (snd (update_post sl acc (r_now r) (r_today r) (r_user r) (r_id r)
        (r_body r) cats posts)) = Some p1"
    and "publishedAt p1 = Some t"
    using update_post_keeps_publishedAt [OF Cons.prems] by blast
  from Cons.IH [OF this] show ?case by simp
qed

text \<open>
  Claim C1: the hook sets \<open>publishedAt\<close> to the current time exactly when the status
  is modified, is \<open>published\<close>, and \<open>publishedAt\<close> is unset; once it is set, no
  sequence of update requests through \<open>PUT /posts/:id\<close>, whatever their bodies,
  changes it.
\<close>

theorem C1_publishedAt_set_once:
  "publishedAt (post_pre_save slugify isModified isNew now today p) =
     (if isModified ''status'' \<and> status p = Published \<and> publishedAt p = None
      then Some today else publishedAt p)
   \<and> (findById oid i posts = Some q \<and> publishedAt q = Some t \<longrightarrow>
        (\<exists>q'. findById oid i (update_sequence slugify accepts categories reqs posts) = Some q'
               \<and> publishedAt q' = Some t))"
  using update_sequence_keeps_publishedAt [of i posts q t slugify accepts categories reqs]
  by (simp add: pre_save_publishedAt_value)

theorem C1_publishedAt_set_once_witness:
  "publishedAt (post_pre_save (\<lambda>s. s) (\<lambda>f. f = ''status'') False 70 77
      (hello_post\<lparr>status := Published, publishedAt := None\<rparr>))
     = Some 77
   \<and> findById oid 7
        [(hello_post\<lparr>status := Published, publishedAt := Some 5\<rparr>)]
      = Some (hello_post\<lparr>status := Published, publishedAt := Some 5\<rparr>)
   \<and> (\<exists>q'. findById oid 7
        (update_sequence (\<lambda>s. s) (\<lambda>_ _ _. True) []
        [\<lparr>r_now = 10, r_today = 10, r_user = admin,
               r_id = 7,
               r_body = (no_body\<lparr>b_status := Some ''draft''\<rparr>)\<rparr>,
         \<lparr>r_now = 20, r_today = 20, r_user = admin,
               r_id = 7,
               r_body = (no_body\<lparr>b_status := Some ''published''\<rparr>)\<rparr>]
        [(hello_post\<lparr>status := Published, publishedAt := Some 5\<rparr>)])
          = Some q'
        \<and> publishedAt q' = Some 5)
   \<and> update_sequence (\<lambda>s. s) (\<lambda>_ _ _. True) []
        [\<lparr>r_now = 10, r_today = 10, r_user = admin,
               r_id = 7,
               r_body = (no_body\<lparr>b_status := Some ''draft''\<rparr>)\<rparr>,
         \<lparr>r_now = 20, r_today = 20, r_user = admin,
               r_id = 7,
               r_body = (no_body\<lparr>b_status := Some ''published''\<rparr>)\<rparr>]
        [(hello_post\<lparr>status := Published, publishedAt := Some 5\<rparr>)]
      = [(hello_post\<lparr>status := Published, publishedAt := Some 5,
              seo := seo_of ''Hello, World!'' ''<p>Hello</p> world''\<rparr>)]"
proof -
  have to_draft: "apply_update (no_body\<lparr>b_status := Some ''draft''\<rparr>)
      (hello_post\<lparr>status := Published, publishedAt := Some 5\<rparr>)
     = (hello_post\<lparr>status := Draft, publishedAt := Some 5\<rparr>)"
    by (simp add: apply_update_def assign_def status_of_string_def)
  have saved_draft: "post_pre_save (\<lambda>s. s)
      (isModified_after (hello_post\<lparr>status := Published,
                             publishedAt := Some 5\<rparr>)
         (hello_post\<lparr>status := Draft, publishedAt := Some 5\<rparr>))
      False 10 10
      (hello_post\<lparr>status := Draft, publishedAt := Some 5\<rparr>)
     = (hello_post\<lparr>status := Draft, publishedAt := Some 5,
            seo := seo_of ''Hello, World!'' ''<p>Hello</p> world''\<rparr>)"
    by (simp add: post_pre_save_def seo_block_def publishedAt_block_def
        readingTime_block_def excerpt_block_def slug_block_def set_slug_def
        falsy_def substring0_def isModified_after_def Let_def)
  have first: "update_post (\<lambda>s. s) (\<lambda>_ _ _. True) 10 10 admin 7
      (no_body\<lparr>b_status := Some ''draft''\<rparr>) []
      [(hello_post\<lparr>status := Published, publishedAt := Some 5\<rparr>)]
     = (Success 200 (hello_post\<lparr>status := Draft, publishedAt := Some 5,
                         seo := seo_of ''Hello, World!'' ''<p>Hello</p> world''\<rparr>),
        [(hello_post\<lparr>status := Draft, publishedAt := Some 5,
              seo := seo_of ''Hello, World!'' ''<p>Hello</p> world''\<rparr>)])"
    using to_draft saved_draft
    by (simp add: update_post_def auth_def adminAuth_def validate_post_body_def
        optional_def findById_def category_check_def Let_def)
  have to_published: "apply_update (no_body\<lparr>b_status := Some ''published''\<rparr>)
      (hello_post\<lparr>status := Draft, publishedAt := Some 5,
           seo := seo_of ''Hello, World!'' ''<p>Hello</p> world''\<rparr>)
     = (hello_post\<lparr>status := Published, publishedAt := Some 5,
            seo := seo_of ''Hello, World!'' ''<p>Hello</p> world''\<rparr>)"
    by (simp add: apply_update_def assign_def status_of_string_def)
  have saved_published: "post_pre_save (\<lambda>s. s)
      (isModified_after (hello_post\<lparr>status := Draft,
                             publishedAt := Some 5,
                             seo := seo_of ''Hello, World!'' ''<p>Hello</p> world''\<rparr>)
         (hello_post\<lparr>status := Published, publishedAt := Some 5,
              seo := seo_of ''Hello, World!'' ''<p>Hello</p> world''\<rparr>))
      False 20 20
      (hello_post\<lparr>status := Published, publishedAt := Some 5,
           seo := seo_of ''Hello, World!'' ''<p>Hello</p> world''\<rparr>)
     = (hello_post\<lparr>status := Published, publishedAt := Some 5,
            seo := seo_of ''Hello, World!'' ''<p>Hello</p> world''\<rparr>)"
    by (simp add: post_pre_save_def seo_block_def publishedAt_block_def
        readingTime_block_def excerpt_block_def slug_block_def set_slug_def
        falsy_def substring0_def isModified_after_def Let_def)
  have second: "update_post (\<lambda>s. s) (\<lambda>_ _ _. True) 20 20 admin 7
      (no_body\<lparr>b_status := Some ''published''\<rparr>) []
      [(hello_post\<lparr>status := Draft, publishedAt := Some 5,
            seo := seo_of ''Hello, World!'' ''<p>Hello</p> world''\<rparr>)]
     = (Success 200 (hello_post\<lparr>status := Published,
                         publishedAt := Some 5,
                         seo := seo_of ''Hello, World!'' ''<p>Hello</p> world''\<rparr>),
        [(hello_post\<lparr>status := Published, publishedAt := Some 5,
              seo := seo_of ''Hello, World!'' ''<p>Hello</p> world''\<rparr>)])"
    using to_published saved_published
    by (simp add: update_post_def auth_def adminAuth_def validate_post_body_def
        optional_def findById_def category_check_def Let_def)
  have toggled: "update_sequence (\<lambda>s. s) (\<lambda>_ _ _. True) []
        [\<lparr>r_now = 10, r_today = 10, r_user = admin,
               r_id = 7,
               r_body = (no_body\<lparr>b_status := Some ''draft''\<rparr>)\<rparr>,
         \<lparr>r_now = 20, r_today = 20, r_user = admin,
               r_id = 7,
               r_body = (no_body\<lparr>b_status := Some ''published''\<rparr>)\<rparr>]
        [(hello_post\<lparr>status := Published, publishedAt := Some 5\<rparr>)]
      = [(hello_post\<lparr>status := Published, publishedAt := Some 5,
              seo := seo_of ''Hello, World!'' ''<p>Hello</p> world''\<rparr>)]"
    using first second by simp
  have found: "findById oid 7
        [(hello_post\<lparr>status := Published, publishedAt := Some 5\<rparr>)]
      = Some (hello_post\<lparr>status := Published, publishedAt := Some 5\<rparr>)"
    by (simp add: findById_def)
  from C1_publishedAt_set_once [where slugify = "\<lambda>s. s" and isModified = "\<lambda>f. f = ''status''"
      and isNew = False and now = 70 and today = 77
      and p = "(hello_post\<lparr>status := Published, publishedAt := None\<rparr>)"
      and i = 7 and t = 5 and accepts = "\<lambda>_ _ _. True" and categories = "[]"
      and q = "(hello_post\<lparr>status := Published, publishedAt := Some 5\<rparr>)"
      and posts = "[(hello_post\<lparr>status := Published,
                         publishedAt := Some 5\<rparr>)]"
      and reqs = "[\<lparr>r_now = 10, r_today = 10, r_user = admin,
               r_id = 7,
               r_body = (no_body\<lparr>b_status := Some ''draft''\<rparr>)\<rparr>,
         \<lparr>r_now = 20, r_today = 20, r_user = admin,
               r_id = 7,
               r_body = (no_body\<lparr>b_status := Some ''published''\<rparr>)\<rparr>]"]
  have "publishedAt (post_pre_save (\<lambda>s. s) (\<lambda>f. f = ''status'') False 70 77
      (hello_post\<lparr>status := Published, publishedAt := None\<rparr>))
     = Some 77
   \<and> (\<exists>q'. findById oid 7
        (update_sequence (\<lambda>s. s) (\<lambda>_ _ _. True) []
        [\<lparr>r_now = 10, r_today = 10, r_user = admin,
               r_id = 7,
               r_body = (no_body\<lparr>b_status := Some ''draft''\<rparr>)\<rparr>,
         \<lparr>r_now = 20, r_today = 20, r_user = admin,
               r_id = 7,
               r_body = (no_body\<lparr>b_status := Some ''published''\<rparr>)\<rparr>]
        [(hello_post\<lparr>status := Published, publishedAt := Some 5\<rparr>)])
          = Some q'
        \<and> publishedAt q' = Some 5)"
    using found by simp
  with found toggled show ?thesis by simp
qed

lemma apply_update_slug: "slug (apply_update b p) = slug p"
  unfolding apply_update_def
proof (rule foldl_keeps, goal_cases)
  case (1 a d)
  then show ?case by (auto simp: assign_def split: option.splits)
qed

lemma create_post_success:
  assumes "create_post sl acc fresh n td u b cats posts = (Success code p, posts')"
  shows "posts' = posts @ [p]"
    and "\<exists>ci. p = post_pre_save sl (\<lambda>path. True) True n td
                 (new_post fresh td (case u of None \<Rightarrow> 0 | Some c \<Rightarrow> user_id c) ci b)"
    and "validate_new_post b"
  using assms by (auto simp: create_post_def Let_def split: if_splits option.splits)

lemma update_post_success:
  assumes "update_post sl acc n td u i b cats posts = (Success code p, posts')"
  shows "\<exists>old. findById oid i posts = Some old
           \<and> p = post_pre_save sl (isModified_after old (apply_update b old)) False n td
                   (apply_update b old)
           \<and> posts' = updateById oid i (\<lambda>_. p) posts"
  using assms
  by (cases "findById oid i posts")
     (auto simp: update_post_def Let_def split: if_splits option.splits)

text \<open>
  Claim C4: a new post gets the slugified title, a hyphen and the last four digits
  of the creation timestamp; on a later save the slug is the slugified title, with
  no suffix, when the title was modified, and is unchanged otherwise. The first
  four parts are about the hook, for every state of the change tracking; the last
  two are about the documents that \<open>POST /posts\<close> and \<open>PUT /posts/:id\<close> store.
\<close>

theorem C4_slug_derivation:
  "slug (post_pre_save slugify isModified True now today p)
     = toLowerCase (slugify (title p)) @ ''-'' @ slice_last 4 (toString now)
   \<and> (1000 \<le> now \<longrightarrow>
        slice_last 4 (toString now) =
          [digit_char (now div 1000 mod 10), digit_char (now div 100 mod 10),
           digit_char (now div 10 mod 10), digit_char (now mod 10)])
   \<and> (isModified ''title'' \<longrightarrow>
        slug (post_pre_save slugify isModified False now today p)
          = toLowerCase (slugify (title p)))
   \<and> (\<not> isModified ''title'' \<longrightarrow>
        slug (post_pre_save slugify isModified False now today p) = slug p)
   \<and> (create_post slugify accepts fresh now today user body categories posts
          = (Success code created, posts') \<longrightarrow>
        posts' = posts @ [created]
        \<and> (\<exists>t. b_title body = Some t \<and> title created = js_trim t)
        \<and> slug created
            = toLowerCase (slugify (title created)) @ ''-'' @ slice_last 4 (toString now))
   \<and> (update_post slugify accepts now today user i body categories posts
          = (Success code' updated, posts'') \<longrightarrow>
        (\<exists>old. findById oid i posts = Some old
           \<and> slug updated = (if title updated \<noteq> title old
                              then toLowerCase (slugify (title updated))
                              else slug old)))"
proof -
  have created: "posts' = posts @ [created]
        \<and> (\<exists>t. b_title body = Some t \<and> title created = js_trim t)
        \<and> slug created
            = toLowerCase (slugify (title created)) @ ''-'' @ slice_last 4 (toString now)"
    if run: "create_post slugify accepts fresh now today user body categories posts
          = (Success code created, posts')"
  proof -
    note facts = create_post_success [OF run]
    from facts(3) obtain t where t: "b_title body = Some t"
      by (cases "b_title body") (auto simp: validate_new_post_def)
    from facts(2) obtain ci where
      saved: "created = post_pre_save slugify (\<lambda>path. True) True now today
                (new_post fresh today (case user of None \<Rightarrow> 0 | Some c \<Rightarrow> user_id c) ci body)"
      by blast
    have "title created = js_trim t"
      by (simp add: saved post_pre_save_def block_fields new_post_def t)
    moreover have "slug created
        = toLowerCase (slugify (title created)) @ ''-'' @ slice_last 4 (toString now)"
      by (simp add: saved pre_save_slug slug_block_slug post_pre_save_def block_fields)
    ultimately show ?thesis
      using facts(1) t by simp
  qed
  have updated: "\<exists>old. findById oid i posts = Some old
           \<and> slug updated = (if title updated \<noteq> title old
                              then toLowerCase (slugify (title updated))
                              else slug old)"
    if run: "update_post slugify accepts now today user i body categories posts
          = (Success code' updated, posts'')"
  proof -
    from update_post_success [OF run] obtain old where
      old: "findById oid i posts = Some old"
      and saved: "updated = post_pre_save slugify (isModified_after old (apply_update body old))
                     False now today (apply_update body old)"
      by blast
    have "title updated = title (apply_update body old)"
      by (simp add: saved post_pre_save_def block_fields)
    then have "slug updated = (if title updated \<noteq> title old
                                then toLowerCase (slugify (title updated))
                                else slug old)"
      by (simp add: saved pre_save_slug slug_block_slug isModified_after_def apply_update_slug)
    with old show ?thesis by blast
  qed
  have hook: "slug (post_pre_save slugify isModified True now today p)
       = toLowerCase (slugify (title p)) @ ''-'' @ slice_last 4 (toString now)"
    "isModified ''title'' \<Longrightarrow>
       slug (post_pre_save slugify isModified False now today p)
          = toLowerCase (slugify (title p))"
    "\<not> isModified ''title'' \<Longrightarrow>
       slug (post_pre_save slugify isModified False now today p) = slug p"
    by (simp_all add: pre_save_slug slug_block_slug)
  from hook created updated toString_last4 [of now] show ?thesis
    by blast
qed

theorem C4_slug_derivation_witness:
  "(1000::nat) \<le> 1700000012345
   \<and> slice_last 4 (toString 1700000012345) = ''2345''
   \<and> create_post (\<lambda>s. if s = ''Hello, World!'' then ''Hello-World'' else ''Second-Title'')
       (\<lambda>_ _ _. True) 7 1700000012345 99 admin
       (no_body\<lparr>b_title := Some ''Hello, World!'',
            b_content := Some ''<p>Hello</p> world'',
            b_category := Some ''000000000000000000000003''\<rparr>)
       [tech] []
     = (Success 201
          (hello_post\<lparr>excerpt := Some ''Hello world'',
               readingTime := 1, seo := seo_of ''Hello, World!'' ''Hello world'',
               createdAt := 99\<rparr>),
        [(hello_post\<lparr>excerpt := Some ''Hello world'', readingTime := 1,
              seo := seo_of ''Hello, World!'' ''Hello world'', createdAt := 99\<rparr>)])
   \<and> update_post (\<lambda>s. if s = ''Hello, World!'' then ''Hello-World'' else ''Second-Title'')
       (\<lambda>_ _ _. True) 1700000099999 100 admin 7
       (no_body\<lparr>b_title := Some ''Second Title''\<rparr>)
       [tech]
       [hello_post]
     = (Success 200
          (hello_post\<lparr>title := ''Second Title'',
               slug := ''second-title'',
               seo := seo_of ''Second Title'' ''<p>Hello</p> world''\<rparr>),
        [(hello_post\<lparr>title := ''Second Title'',
              slug := ''second-title'',
              seo := seo_of ''Second Title'' ''<p>Hello</p> world''\<rparr>)])
   \<and> update_post (\<lambda>s. if s = ''Hello, World!'' then ''Hello-World'' else ''Second-Title'')
       (\<lambda>_ _ _. True) 1700000099999 100 admin 7
       (no_body\<lparr>b_content := Some ''other''\<rparr>)
       [tech]
       [hello_post]
     = (Success 200
          (hello_post\<lparr>content := ''other'', excerpt := Some ''other'',
               readingTime := 1, seo := seo_of ''Hello, World!'' ''other''\<rparr>),
        [(hello_post\<lparr>content := ''other'', excerpt := Some ''other'',
              readingTime := 1, seo := seo_of ''Hello, World!'' ''other''\<rparr>)])"
proof -
  have stamp: "slice_last 4 (toString 1700000012345) = ''2345''"
    using C4_slug_derivation [where now = 1700000012345]
    by (simp add: digit_char_def char_of_def bit_0)
  have lower: "toLowerCase ''Hello-World'' = ''hello-world''"
      "toLowerCase ''Second-Title'' = ''second-title''"
      "toLowerCase ''hello-world-2345'' = ''hello-world-2345''"
    by (simp_all add: toLowerCase_def lower_char_def is_upper_def char_of_def bit_0)
  have category_id: "objectId ''000000000000000000000003'' = Some 3"
    "isMongoId ''000000000000000000000003''"
    by (simp_all add: objectId_def hex_value_def hex_digit_value_def isMongoId_def
        hexadecimal_def is_hex_digit_def is_digit_def)
  have constructed: "new_post 7 99 9 3
      (no_body\<lparr>b_title := Some ''Hello, World!'',
           b_content := Some ''<p>Hello</p> world'',
           b_category := Some ''000000000000000000000003''\<rparr>)
     = (hello_post\<lparr>slug := [], readingTime := 0, createdAt := 99\<rparr>)"
    by (simp add: new_post_def js_trim_def is_space_def category_id)
  have hooked: "post_pre_save (\<lambda>s. if s = ''Hello, World!'' then ''Hello-World'' else ''Second-Title'')
      (\<lambda>path. True) True 1700000012345 99
      (hello_post\<lparr>slug := [], readingTime := 0, createdAt := 99\<rparr>)
     = (hello_post\<lparr>excerpt := Some ''Hello world'', readingTime := 1,
            seo := seo_of ''Hello, World!'' ''Hello world'', createdAt := 99\<rparr>)"
    by (simp add: post_pre_save_def seo_block_def publishedAt_block_def
        readingTime_block_def excerpt_block_def slug_block_def set_slug_def
        split_ws_length_def is_space_def falsy_def substring0_def Let_def stamp lower)
  have created: "create_post (\<lambda>s. if s = ''Hello, World!'' then ''Hello-World'' else ''Second-Title'')
        (\<lambda>_ _ _. True) 7 1700000012345 99 admin
        (no_body\<lparr>b_title := Some ''Hello, World!'',
             b_content := Some ''<p>Hello</p> world'',
             b_category := Some ''000000000000000000000003''\<rparr>)
        [tech] []
      = (Success 201
           (hello_post\<lparr>excerpt := Some ''Hello world'',
                readingTime := 1, seo := seo_of ''Hello, World!'' ''Hello world'',
                createdAt := 99\<rparr>),
         [(hello_post\<lparr>excerpt := Some ''Hello world'',
               readingTime := 1, seo := seo_of ''Hello, World!'' ''Hello world'',
               createdAt := 99\<rparr>)])"
    using constructed hooked
    by (simp add: create_post_def auth_def adminAuth_def validate_new_post_def
        optional_def js_trim_def is_space_def findById_def category_id Let_def)
  have assigned_title: "apply_update (no_body\<lparr>b_title := Some ''Second Title''\<rparr>)
      hello_post
     = (hello_post\<lparr>title := ''Second Title''\<rparr>)"
    by (simp add: apply_update_def assign_def js_trim_def is_space_def)
  have hooked_title: "post_pre_save (\<lambda>s. if s = ''Hello, World!'' then ''Hello-World'' else ''Second-Title'')
      (isModified_after hello_post
         (hello_post\<lparr>title := ''Second Title''\<rparr>))
      False 1700000099999 100
      (hello_post\<lparr>title := ''Second Title''\<rparr>)
     = (hello_post\<lparr>title := ''Second Title'', slug := ''second-title'',
            seo := seo_of ''Second Title'' ''<p>Hello</p> world''\<rparr>)"
    by (simp add: post_pre_save_def seo_block_def publishedAt_block_def
        readingTime_block_def excerpt_block_def slug_block_def set_slug_def
        split_ws_length_def is_space_def falsy_def substring0_def Let_def isModified_after_def lower)
  have renamed: "update_post (\<lambda>s. if s = ''Hello, World!'' then ''Hello-World'' else ''Second-Title'')
        (\<lambda>_ _ _. True) 1700000099999 100 admin 7
        (no_body\<lparr>b_title := Some ''Second Title''\<rparr>)
        [tech]
        [hello_post]
      = (Success 200
           (hello_post\<lparr>title := ''Second Title'',
                slug := ''second-title'',
                seo := seo_of ''Second Title'' ''<p>Hello</p> world''\<rparr>),
         [(hello_post\<lparr>title := ''Second Title'',
               slug := ''second-title'',
               seo := seo_of ''Second Title'' ''<p>Hello</p> world''\<rparr>)])"
    using assigned_title hooked_title
    by (simp add: update_post_def auth_def adminAuth_def validate_post_body_def
        optional_def js_trim_def is_space_def findById_def category_check_def Let_def)
  have assigned_content: "apply_update (no_body\<lparr>b_content := Some ''other''\<rparr>)
      hello_post
     = (hello_post\<lparr>content := ''other''\<rparr>)"
    by (simp add: apply_update_def assign_def)
  have hooked_content: "post_pre_save (\<lambda>s. if s = ''Hello, World!'' then ''Hello-World'' else ''Second-Title'')
      (isModified_after hello_post
         (hello_post\<lparr>content := ''other''\<rparr>))
      False 1700000099999 100
      (hello_post\<lparr>content := ''other''\<rparr>)
     = (hello_post\<lparr>content := ''other'', excerpt := Some ''other'',
            readingTime := 1, seo := seo_of ''Hello, World!'' ''other''\<rparr>)"
    by (simp add: post_pre_save_def seo_block_def publishedAt_block_def
        readingTime_block_def excerpt_block_def slug_block_def set_slug_def
        split_ws_length_def is_space_def falsy_def substring0_def Let_def isModified_after_def lower)
  have kept: "update_post (\<lambda>s. if s = ''Hello, World!'' then ''Hello-World'' else ''Second-Title'')
        (\<lambda>_ _ _. True) 1700000099999 100 admin 7
        (no_body\<lparr>b_content := Some ''other''\<rparr>)
        [tech]
        [hello_post]
      = (Success 200
           (hello_post\<lparr>content := ''other'', excerpt := Some ''other'',
                readingTime := 1, seo := seo_of ''Hello, World!'' ''other''\<rparr>),
         [(hello_post\<lparr>content := ''other'', excerpt := Some ''other'',
               readingTime := 1, seo := seo_of ''Hello, World!'' ''other''\<rparr>)])"
    using assigned_content hooked_content
    by (simp add: update_post_def auth_def adminAuth_def validate_post_body_def
        optional_def findById_def category_check_def Let_def)
  from stamp created renamed kept show ?thesis by simp
qed

text \<open>
  Claim C2 says that an absent \<open>seo.metaDescription\<close> is filled with the excerpt cut
  to 160 characters. The hook stores the excerpt as it is: a post created through
  \<open>POST /posts\<close> with an excerpt of 161 characters is stored with a meta
  description of 161 characters, and a new post with 201 characters of content and
  no excerpt gets the derived excerpt of 203 characters as its meta description.
  The schema bounds the field by 160.
\<close>

theorem C2_metaDescription_exceeds_160:
  "create_post (\<lambda>s. s) (\<lambda>_ _ _. True) 7 1700000012345 99
      admin
      (no_body\<lparr>b_title := Some ''t'', b_content := Some ''c'',
           b_excerpt := Some (replicate 161 CHR ''a''),
           b_category := Some ''000000000000000000000003''\<rparr>)
      [tech] []
     = (Success 201
          (hello_post\<lparr>title := ''t'', slug := ''t-2345'',
               content := ''c'', excerpt := Some (replicate 161 CHR ''a''),
               readingTime := 1, seo := seo_of ''t'' (replicate 161 CHR ''a''),
               createdAt := 99\<rparr>),
        [(hello_post\<lparr>title := ''t'', slug := ''t-2345'',
              content := ''c'', excerpt := Some (replicate 161 CHR ''a''),
              readingTime := 1, seo := seo_of ''t'' (replicate 161 CHR ''a''),
              createdAt := 99\<rparr>)])
   \<and> length (replicate 161 CHR ''a'') = 161
   \<and> Some (replicate 161 CHR ''a'') \<noteq> Some (substring0 160 (replicate 161 CHR ''a''))
   \<and> metaDescription (seo (post_pre_save (\<lambda>s. s) (\<lambda>_. True) True 1700000012345 99
      (hello_post\<lparr>content := replicate 201 CHR ''a'', excerpt := None\<rparr>)))
     = Some (replicate 200 CHR ''a'' @ ''...'')
   \<and> length (replicate 200 CHR ''a'' @ ''...'') = 203"
proof -
  have plain: "strip_tags (replicate n CHR ''a'') = replicate n CHR ''a''" for n
    by (induction n) simp_all
  have stamp: "slice_last 4 (toString 1700000012345) = ''2345''"
    using toString_last4 [of 1700000012345]
    by (simp add: digit_char_def char_of_def bit_0)
  have lower: "toLowerCase ''t'' = ''t''" "toLowerCase ''t-2345'' = ''t-2345''"
    by (simp_all add: toLowerCase_def lower_char_def is_upper_def)
  have category_id: "objectId ''000000000000000000000003'' = Some 3"
    "isMongoId ''000000000000000000000003''"
    by (simp_all add: objectId_def hex_value_def hex_digit_value_def isMongoId_def
        hexadecimal_def is_hex_digit_def is_digit_def)
  have constructed: "new_post 7 99 9 3
      (no_body\<lparr>b_title := Some ''t'', b_content := Some ''c'',
           b_excerpt := Some (replicate 161 CHR ''a''),
           b_category := Some ''000000000000000000000003''\<rparr>)
     = (hello_post\<lparr>title := ''t'', slug := [], content := ''c'',
            excerpt := Some (replicate 161 CHR ''a''), readingTime := 0,
            createdAt := 99\<rparr>)"
    by (simp add: new_post_def js_trim_def is_space_def category_id)
  have hooked: "post_pre_save (\<lambda>s. s) (\<lambda>path. True) True 1700000012345 99
      (hello_post\<lparr>title := ''t'', slug := [], content := ''c'',
           excerpt := Some (replicate 161 CHR ''a''), readingTime := 0,
           createdAt := 99\<rparr>)
     = (hello_post\<lparr>title := ''t'', slug := ''t-2345'',
            content := ''c'', excerpt := Some (replicate 161 CHR ''a''),
            readingTime := 1, seo := seo_of ''t'' (replicate 161 CHR ''a''),
            createdAt := 99\<rparr>)"
    by (simp add: post_pre_save_def seo_block_def publishedAt_block_def
        readingTime_block_def excerpt_block_def slug_block_def set_slug_def
        split_ws_length_def is_space_def falsy_def substring0_def Let_def stamp lower)
  have created: "create_post (\<lambda>s. s) (\<lambda>_ _ _. True) 7 1700000012345 99
      admin
      (no_body\<lparr>b_title := Some ''t'', b_content := Some ''c'',
           b_excerpt := Some (replicate 161 CHR ''a''),
           b_category := Some ''000000000000000000000003''\<rparr>)
      [tech] []
     = (Success 201
          (hello_post\<lparr>title := ''t'', slug := ''t-2345'',
               content := ''c'', excerpt := Some (replicate 161 CHR ''a''),
               readingTime := 1, seo := seo_of ''t'' (replicate 161 CHR ''a''),
               createdAt := 99\<rparr>),
        [(hello_post\<lparr>title := ''t'', slug := ''t-2345'',
              content := ''c'', excerpt := Some (replicate 161 CHR ''a''),
              readingTime := 1, seo := seo_of ''t'' (replicate 161 CHR ''a''),
              createdAt := 99\<rparr>)])"
    using constructed hooked
    by (simp add: create_post_def auth_def adminAuth_def validate_new_post_def
        optional_def js_trim_def is_space_def findById_def category_id Let_def)
  have derived: "metaDescription (seo (post_pre_save (\<lambda>s. s) (\<lambda>_. True) True 1700000012345 99
      (hello_post\<lparr>content := replicate 201 CHR ''a'', excerpt := None\<rparr>)))
     = Some (replicate 200 CHR ''a'' @ ''...'')"
    by (simp add: post_pre_save_def seo_block_def publishedAt_block_def
        readingTime_block_def excerpt_block_def slug_block_def set_slug_def Let_def
        falsy_def substring0_def plain)
  from created derived show ?thesis
    by (simp add: substring0_def)
qed

text \<open>
  The rest of the rule is as the specification has it: the meta title of a post
  is its title cut to 60 characters, that of a category its name (at most 50
  characters by the schema), the meta description of a category is its description
  cut to 160 characters, a post without excerpt falls back to its content cut to
  160 characters, and a field that is set is left as it is.
\<close>

lemma post_seo_fill:
  "metaTitle (seo (post_pre_save slugify isModified isNew now today p)) =
     (if falsy (metaTitle (seo p)) then Some (take 60 (title p)) else metaTitle (seo p))"
  "\<not> falsy (metaDescription (seo p)) \<Longrightarrow>
     metaDescription (seo (post_pre_save slugify isModified isNew now today p))
       = metaDescription (seo p)"
  "falsy (metaDescription (seo p)) \<Longrightarrow> falsy (excerpt p) \<Longrightarrow> \<not> isModified ''content'' \<Longrightarrow>
     metaDescription (seo (post_pre_save slugify isModified isNew now today p))
       = Some (take 160 (content p))"
  "falsy (metaDescription (seo p)) \<Longrightarrow> excerpt p = Some e \<Longrightarrow> e \<noteq> [] \<Longrightarrow>
     metaDescription (seo (post_pre_save slugify isModified isNew now today p)) = Some e"
  by (simp_all add: post_pre_save_def seo_block_def block_fields excerpt_block_def
      falsy_def substring0_def Let_def split: option.splits)

lemma category_seo_fill:
  "metaTitle (cat_seo (category_pre_save slugify isModified isNew c)) =
     (if falsy (metaTitle (cat_seo c)) then Some (name c) else metaTitle (cat_seo c))"
  "length (name c) \<le> 60 \<Longrightarrow> take 60 (name c) = name c"
  "metaDescription (cat_seo (category_pre_save slugify isModified isNew c)) =
     (if falsy (metaDescription (cat_seo c)) \<and> \<not> falsy (description c)
      then Some (take 160 (the (description c)))
      else metaDescription (cat_seo c))"
  by (simp_all add: category_pre_save_def falsy_def substring0_def Let_def
      split: option.splits)

text \<open>
  Claim C10: a like on an existing post increments the stored counter by exactly
  one and leaves the other posts alone; the response carries the \<open>likes\<close> of the
  document as it was fetched, plus one, whatever the collection holds when the
  increment reaches it.
\<close>

theorem C10_like_increment:
  "(findById oid i posts = Some p \<longrightarrow>
      like_post i posts = (Success 200 (likes p + 1), incrementLikes p posts)
      \<and> findById oid i (snd (like_post i posts)) = Some (p\<lparr>likes := likes p + 1\<rparr>)
      \<and> (\<forall>j. j \<noteq> i \<longrightarrow> findById oid j (snd (like_post i posts)) = findById oid j posts))
   \<and> (findById oid (oid p) later = Some q \<longrightarrow>
        fst (like_fetched p later) = Success 200 (likes p + 1)
        \<and> findById oid (oid p) (snd (like_fetched p later)) = Some (q\<lparr>likes := likes q + 1\<rparr>))"
proof -
  have look: "findById oid j (incrementLikes d ds) =
      (if j = oid d then map_option (\<lambda>x. x\<lparr>likes := likes x + 1\<rparr>) (findById oid (oid d) ds)
       else findById oid j ds)" for j d ds
    unfolding incrementLikes_def by (rule findById_updateById) simp
  have first: "like_post i posts = (Success 200 (likes p + 1), incrementLikes p posts)
      \<and> findById oid i (snd (like_post i posts)) = Some (p\<lparr>likes := likes p + 1\<rparr>)
      \<and> (\<forall>j. j \<noteq> i \<longrightarrow> findById oid j (snd (like_post i posts)) = findById oid j posts)"
    if found: "findById oid i posts = Some p"
  proof -
    have key: "oid p = i" using found by (rule findById_key)
    have run: "like_post i posts = (Success 200 (likes p + 1), incrementLikes p posts)"
      by (simp add: like_post_def like_fetched_def found)
    show ?thesis
      using found by (simp add: run look key)
  qed
  have second: "fst (like_fetched p later) = Success 200 (likes p + 1)
      \<and> findById oid (oid p) (snd (like_fetched p later)) = Some (q\<lparr>likes := likes q + 1\<rparr>)"
    if "findById oid (oid p) later = Some q"
    using that by (simp add: like_fetched_def look)
  from first second show ?thesis by blast
qed

theorem C10_like_increment_witness:
  "findById oid 7 [(hello_post\<lparr>likes := 0\<rparr>)]
     = Some (hello_post\<lparr>likes := 0\<rparr>)
   \<and> like_post 7 [(hello_post\<lparr>likes := 0\<rparr>)]
     = (Success 200 1,
        [(hello_post\<lparr>likes := 1\<rparr>)])
   \<and> fst (like_fetched (hello_post\<lparr>likes := 0\<rparr>)
             [(hello_post\<lparr>likes := 5\<rparr>)])
     = Success 200 1
   \<and> findById oid 7
        (snd (like_fetched (hello_post\<lparr>likes := 0\<rparr>)
                [(hello_post\<lparr>likes := 5\<rparr>)]))
     = Some (hello_post\<lparr>likes := 6\<rparr>)"
  using C10_like_increment [where i = 7
      and p = "(hello_post\<lparr>likes := 0\<rparr>)"
      and posts = "[(hello_post\<lparr>likes := 0\<rparr>)]"
      and q = "(hello_post\<lparr>likes := 5\<rparr>)"
      and later = "[(hello_post\<lparr>likes := 5\<rparr>)]"]
  by (simp add: findById_def incrementLikes_def)

section \<open>Properties of the category routes\<close>

text \<open>
  Claim C5: for an existing category and a caller who passed the administrator
  check, a category that is referenced by a post or is the parent of a category is
  not deleted: the request fails (HTTP 400 with the message that names the
  count) and both collections are as before. The collections change only when the
  category exists and both counts are zero.
\<close>

theorem C5_delete_category_blocked:
  "(auth user \<and> adminAuth user \<and> findById cat_oid i categories = Some c \<longrightarrow>
      (0 < countDocuments (\<lambda>p. category p = cat_oid c) posts
         \<or> 0 < countDocuments (\<lambda>d. parentCategory d = Some (cat_oid c)) categories \<longrightarrow>
       (\<exists>rest. delete_category user i categories posts
                 = (Failure 400 (''Cannot delete category. It has '' @ rest),
                    categories, posts)))
      \<and> (countDocuments (\<lambda>p. category p = cat_oid c) posts = 0
         \<and> countDocuments (\<lambda>d. parentCategory d = Some (cat_oid c)) categories = 0 \<longrightarrow>
       delete_category user i categories posts
         = (Success 200 ''Category deleted successfully'',
            deleteById cat_oid i categories, posts)))
   \<and> (snd (delete_category user i categories posts) \<noteq> (categories, posts) \<longrightarrow>
        auth user \<and> adminAuth user
        \<and> (\<exists>d. findById cat_oid i categories = Some d
               \<and> countDocuments (\<lambda>p. category p = cat_oid d) posts = 0
               \<and> countDocuments (\<lambda>e. parentCategory e = Some (cat_oid d)) categories = 0))"
  by (cases "findById cat_oid i categories")
     (auto simp: delete_category_def Let_def countDocuments_def)

theorem C5_delete_category_blocked_witness:
  "auth admin
   \<and> adminAuth admin
   \<and> 0 < countDocuments (\<lambda>p. category p = 3) [hello_post]
   \<and> (\<exists>rest. delete_category admin 3
          [tech]
          [hello_post]
        = (Failure 400 (''Cannot delete category. It has '' @ rest),
           [tech],
           [hello_post]))
   \<and> delete_category admin 3
        [tech] []
      = (Success 200 ''Category deleted successfully'', [], [])"
  using C5_delete_category_blocked [where user = "admin"
      and i = 3 and c = "tech"
      and categories = "[tech]"
      and posts = "[hello_post]"]
    C5_delete_category_blocked [where user = "admin"
      and i = 3 and c = "tech"
      and categories = "[tech]"
      and posts = "[]"]
  by (simp add: auth_def adminAuth_def findById_def countDocuments_def)

section \<open>Properties of the list routes\<close>

lemma ceil_div_ceiling:
  assumes "b \<noteq> 0"
  shows "ceil_div a b = \<lceil>real_of_int a / real_of_int b\<rceil>"
proof -
  have "\<lceil>real_of_int a / real_of_int b\<rceil> = - \<lfloor>- (real_of_int a / real_of_int b)\<rfloor>"
    by (simp add: ceiling_def)
  also have "- (real_of_int a / real_of_int b) = real_of_int (- a) / real_of_int b"
    by simp
  also have "\<lfloor>real_of_int (- a) / real_of_int b\<rfloor> = (- a) div b"
    by (rule floor_divide_of_int_eq)
  finally show ?thesis by (simp add: ceil_div_def)
qed

lemma exponent_small: "a < 2 ^ 53 \<Longrightarrow> exponent a = 0"
  by (simp add: exponent.simps)

lemma round_double_small:
  assumes "\<bar>v\<bar> < 2 ^ 53"
  shows "round_double v = Some v"
proof -
  from assms have small: "nat \<bar>v\<bar> < 2 ^ 53"
    by (simp add: nat_less_iff)
  have "(2::nat) ^ 53 < 2 ^ 1024"
    by simp
  with small have "\<not> 2 ^ 1024 \<le> nat \<bar>v\<bar>"
    by linarith
  with small show ?thesis
    by (simp add: round_double_def exponent_small Let_def)
qed

lemma to_number_small: "\<bar>v\<bar> < 2 ^ 53 \<Longrightarrow> to_number v = Value v"
  by (simp add: to_number_def round_double_small)

text \<open>
  From \<open>2^53\<close> on \<open>parseInt\<close> answers the nearest double: \<open>2^53 + 1\<close> is read as
  \<open>2^53\<close>.
\<close>

lemma parseInt_nearest_double: "parseInt ''9007199254740993'' = Value 9007199254740992"
proof -
  have "exponent 9007199254740993 = 1"
    by (simp add: exponent.simps)
  then have "round_double 9007199254740993 = Some 9007199254740992"
    by (simp add: round_double_def Let_def)
  then show ?thesis
    by (simp add: parseInt_def is_space_def is_digit_def decimal_value_def to_number_def)
qed

lemma parse_or_nonzero: "d \<noteq> 0 \<Longrightarrow> parse_or x d = Value n \<Longrightarrow> n \<noteq> 0"
  by (auto simp: parse_or_def split: option.splits number.splits if_splits)

lemma make_pagination_identity:
  assumes "lmt \<noteq> 0"
  shows "pagination_identity (make_pagination page lmt n) n"
  using assms by (simp add: pagination_identity_def make_pagination_def Let_def ceil_div_ceiling)

text \<open>
  Claim C6: in every paginated list response (public posts, admin posts, posts of a
  category) the pagination satisfies \<open>totalPages = ceil(total / limit)\<close>,
  \<open>hasNextPage = (currentPage < totalPages)\<close> and \<open>hasPrevPage = (currentPage > 1)\<close>,
  where \<open>total\<close> counts all documents of the collection that match the route's
  filter, whatever the page returned holds.
\<close>

theorem C6_pagination_identity:
  "(get_posts compile now q posts = Success code (docs, pg) \<longrightarrow>
      (\<exists>query. posts_filter compile now q
                  (case qp_sort q of None \<Rightarrow> ''latest'' | Some s \<Rightarrow> s) = Some query
         \<and> pagination_identity pg (countDocuments (post_matches query) posts)))
   \<and> (get_posts_admin user aq posts = Success code' (docs', pg') \<longrightarrow>
        pagination_identity pg' (countDocuments (post_matches (admin_filter aq)) posts))
   \<and> (get_category_posts slug_param cq categories posts = Success code'' (cat, docs'', pg'') \<longrightarrow>
        pagination_identity pg''
          (countDocuments (\<lambda>p. status p = Published \<and> category p = cat_oid cat) posts))"
proof (intro conjI impI)
  assume ok: "get_posts compile now q posts = Success code (docs, pg)"
  then obtain query where
    query: "posts_filter compile now q
              (case qp_sort q of None \<Rightarrow> ''latest'' | Some s \<Rightarrow> s) = Some query"
    by (auto simp: get_posts_def Let_def split: if_splits option.splits)
  from ok query obtain p l where
    "parse_or (qp_limit q) 10 = Value l"
    "pg = make_pagination p l (countDocuments (post_matches query) posts)"
    by (auto simp: get_posts_def Let_def split: if_splits option.splits number.splits)
  then have "pagination_identity pg (countDocuments (post_matches query) posts)"
    using parse_or_nonzero [of 10 "qp_limit q" l] by (simp add: make_pagination_identity)
  with query show "\<exists>query. posts_filter compile now q
                  (case qp_sort q of None \<Rightarrow> ''latest'' | Some s \<Rightarrow> s) = Some query
         \<and> pagination_identity pg (countDocuments (post_matches query) posts)"
    by blast
next
  assume "get_posts_admin user aq posts = Success code' (docs', pg')"
  then obtain p l where
    "parse_or (aq_limit aq) 10 = Value l"
    "pg' = make_pagination p l (countDocuments (post_matches (admin_filter aq)) posts)"
    by (auto simp: get_posts_admin_def Let_def split: if_splits option.splits number.splits)
  then show "pagination_identity pg' (countDocuments (post_matches (admin_filter aq)) posts)"
    using parse_or_nonzero [of 10 "aq_limit aq" l] by (simp add: make_pagination_identity)
next
  assume "get_category_posts slug_param cq categories posts = Success code'' (cat, docs'', pg'')"
  then obtain p l where
    "parse_or (cq_limit cq) 10 = Value l"
    "pg'' = make_pagination p l
              (countDocuments
                 (post_matches \<lparr> f_status = Some Published, f_category = Some (cat_oid cat),
                     f_tags_in = None, f_search = None, f_publishedAt_gte = None \<rparr>) posts)"
    by (auto simp: get_category_posts_def Let_def split: if_splits option.splits number.splits)
  moreover have
    "post_matches \<lparr> f_status = Some Published, f_category = Some (cat_oid cat),
        f_tags_in = None, f_search = None, f_publishedAt_gte = None \<rparr>
     = (\<lambda>p. status p = Published \<and> category p = cat_oid cat)"
    by (rule ext) (simp add: post_matches_def)
  ultimately show "pagination_identity pg''
          (countDocuments (\<lambda>p. status p = Published \<and> category p = cat_oid cat) posts)"
    using parse_or_nonzero [of 10 "cq_limit cq" l] by (simp add: make_pagination_identity)
qed

theorem C6_pagination_identity_witness:
  "get_posts (\<lambda>_. None) 0
     \<lparr>qp_page = Some ''1'', qp_limit = Some ''2'', qp_category = None, qp_tags = None,
      qp_search = None, qp_sort = None\<rparr>
     [(hello_post\<lparr>oid := 1, status := Published,
           publishedAt := Some 10\<rparr>),
      (hello_post\<lparr>oid := 2, status := Published,
           publishedAt := Some 30\<rparr>),
      (hello_post\<lparr>oid := 3, status := Published,
           publishedAt := Some 20\<rparr>)]
   = Success 200
      ([(hello_post\<lparr>oid := 2, status := Published,
             publishedAt := Some 30\<rparr>),
        (hello_post\<lparr>oid := 3, status := Published,
             publishedAt := Some 20\<rparr>)],
       \<lparr>currentPage = 1, totalPages = 2, totalPosts = 3, hasNextPage = True,
         hasPrevPage = False, limit = 2\<rparr>)
   \<and> pagination_identity
       \<lparr>currentPage = 1, totalPages = 2, totalPosts = 3, hasNextPage = True,
         hasPrevPage = False, limit = 2\<rparr> 3
   \<and> get_posts_admin admin
       \<lparr>aq_page = None, aq_limit = None, aq_status = None, aq_sort = None\<rparr> []
     = Success 200
        ([], \<lparr>currentPage = 1, totalPages = 0, totalPosts = 0, hasNextPage = False,
           hasPrevPage = False, limit = 10\<rparr>)
   \<and> get_category_posts ''tech'' \<lparr>cq_page = None, cq_limit = None\<rparr>
       [tech] []
     = Success 200
        (tech, [],
         \<lparr>currentPage = 1, totalPages = 0, totalPosts = 0, hasNextPage = False,
          hasPrevPage = False, limit = 10\<rparr>)
   \<and> pagination_identity
       \<lparr>currentPage = 1, totalPages = 0, totalPosts = 0, hasNextPage = False,
         hasPrevPage = False, limit = 10\<rparr> 0"
proof -
  have public: "get_posts (\<lambda>_. None) 0
     \<lparr>qp_page = Some ''1'', qp_limit = Some ''2'', qp_category = None, qp_tags = None,
      qp_search = None, qp_sort = None\<rparr>
     [(hello_post\<lparr>oid := 1, status := Published,
           publishedAt := Some 10\<rparr>),
      (hello_post\<lparr>oid := 2, status := Published,
           publishedAt := Some 30\<rparr>),
      (hello_post\<lparr>oid := 3, status := Published,
           publishedAt := Some 20\<rparr>)]
   = Success 200
      ([(hello_post\<lparr>oid := 2, status := Published,
             publishedAt := Some 30\<rparr>),
        (hello_post\<lparr>oid := 3, status := Published,
             publishedAt := Some 20\<rparr>)],
       \<lparr>currentPage = 1, totalPages = 2, totalPosts = 3, hasNextPage = True,
         hasPrevPage = False, limit = 2\<rparr>)"
    by (simp add: get_posts_def validate_posts_query_def optional_def isInt_def int_regex_def
        int_value_def posts_filter_def posts_sort_def post_le_def null_le_def post_matches_def
        parse_or_def parseInt_def is_space_def is_digit_def decimal_value_def to_number_small
        js_minus_def js_times_def skip_limit_def sort_by_def make_pagination_def
        countDocuments_def ceil_div_def Let_def)
  have admin: "get_posts_admin admin
       \<lparr>aq_page = None, aq_limit = None, aq_status = None, aq_sort = None\<rparr> []
     = Success 200
        ([], \<lparr>currentPage = 1, totalPages = 0, totalPosts = 0, hasNextPage = False,
           hasPrevPage = False, limit = 10\<rparr>)"
    by (simp add: get_posts_admin_def validate_admin_query_def optional_def auth_def
        adminAuth_def admin_filter_def admin_sort_def parse_or_def to_number_small
        js_minus_def js_times_def skip_limit_def sort_by_def make_pagination_def
        countDocuments_def ceil_div_def Let_def)
  have by_category: "get_category_posts ''tech'' \<lparr>cq_page = None, cq_limit = None\<rparr>
       [tech] []
     = Success 200
        (tech, [],
         \<lparr>currentPage = 1, totalPages = 0, totalPosts = 0, hasNextPage = False,
          hasPrevPage = False, limit = 10\<rparr>)"
    by (simp add: get_category_posts_def toLowerCase_def lower_char_def is_upper_def
        parse_or_def to_number_small js_minus_def js_times_def skip_limit_def sort_by_def
        make_pagination_def countDocuments_def ceil_div_def)
  from C6_pagination_identity [THEN conjunct1, rule_format, OF public]
  have "pagination_identity
       \<lparr>currentPage = 1, totalPages = 2, totalPosts = 3, hasNextPage = True,
         hasPrevPage = False, limit = 2\<rparr> 3"
    by (simp add: posts_filter_def post_matches_def countDocuments_def)
  moreover from C6_pagination_identity [THEN conjunct2, THEN conjunct1, rule_format, OF admin]
  have "pagination_identity
       \<lparr>currentPage = 1, totalPages = 0, totalPosts = 0, hasNextPage = False,
         hasPrevPage = False, limit = 10\<rparr> 0"
    by (simp add: countDocuments_def)
  moreover from C6_pagination_identity [THEN conjunct2, THEN conjunct2, rule_format, OF by_category]
  have "pagination_identity
       \<lparr>currentPage = 1, totalPages = 0, totalPosts = 0, hasNextPage = False,
         hasPrevPage = False, limit = 10\<rparr> 0"
    by (simp add: countDocuments_def)
  ultimately show ?thesis using public admin by_category by simp
qed

text \<open>
  The slug of the request is lowercased before the category is looked up: the
  category stored as \<open>tech\<close> is found under \<open>TECH\<close>.
\<close>

lemma category_slug_lowercased:
  "get_category_posts ''TECH'' \<lparr>cq_page = None, cq_limit = None\<rparr> [tech] []
   = Success 200
       (tech, [],
        \<lparr>currentPage = 1, totalPages = 0, totalPosts = 0, hasNextPage = False,
         hasPrevPage = False, limit = 10\<rparr>)"
  by (simp add: get_category_posts_def toLowerCase_def lower_char_def is_upper_def
      char_of_def bit_0 parse_or_def to_number_small js_minus_def js_times_def skip_limit_def
      sort_by_def make_pagination_def countDocuments_def ceil_div_def)

text \<open>
  \<open>GET /posts\<close>, and \<open>GET /posts/admin\<close> for a caller who passed the administrator
  check, answer 400 \<open>Validation failed\<close>, whatever the collection holds, when the
  sort value is outside the route's enumeration, the page is not an integer of at
  least 1, or the limit is not an integer from 1 to 50.
\<close>

lemma post_lists_validated:
  "((\<exists>s. qp_sort q = Some s \<and> s \<notin> {''latest'', ''oldest'', ''popular'', ''trending''})
      \<or> (\<exists>s. qp_page q = Some s \<and> \<not> (int_regex s \<and> 1 \<le> int_value s))
      \<or> (\<exists>s. qp_limit q = Some s \<and> \<not> (int_regex s \<and> 1 \<le> int_value s \<and> int_value s \<le> 50))
     \<longrightarrow> (\<forall>posts. get_posts compile now q posts = Failure 400 ''Validation failed''))
   \<and> (auth user \<and> adminAuth user
        \<and> ((\<exists>s. aq_sort aq = Some s \<and> s \<notin> {''latest'', ''oldest'', ''title'', ''views''})
           \<or> (\<exists>s. aq_page aq = Some s \<and> \<not> (int_regex s \<and> 1 \<le> int_value s))
           \<or> (\<exists>s. aq_limit aq = Some s
                 \<and> \<not> (int_regex s \<and> 1 \<le> int_value s \<and> int_value s \<le> 50)))
     \<longrightarrow> (\<forall>posts. get_posts_admin user aq posts = Failure 400 ''Validation failed''))"
proof (intro conjI impI allI)
  fix posts
  assume "(\<exists>s. qp_sort q = Some s \<and> s \<notin> {''latest'', ''oldest'', ''popular'', ''trending''})
      \<or> (\<exists>s. qp_page q = Some s \<and> \<not> (int_regex s \<and> 1 \<le> int_value s))
      \<or> (\<exists>s. qp_limit q = Some s \<and> \<not> (int_regex s \<and> 1 \<le> int_value s \<and> int_value s \<le> 50))"
  then have "\<not> validate_posts_query q"
    by (auto simp: validate_posts_query_def optional_def isInt_def)
  then show "get_posts compile now q posts = Failure 400 ''Validation failed''"
    by (simp add: get_posts_def)
next
  fix posts
  assume a: "auth user \<and> adminAuth user
        \<and> ((\<exists>s. aq_sort aq = Some s \<and> s \<notin> {''latest'', ''oldest'', ''title'', ''views''})
           \<or> (\<exists>s. aq_page aq = Some s \<and> \<not> (int_regex s \<and> 1 \<le> int_value s))
           \<or> (\<exists>s. aq_limit aq = Some s
                 \<and> \<not> (int_regex s \<and> 1 \<le> int_value s \<and> int_value s \<le> 50)))"
  then have "\<not> validate_admin_query aq"
    by (auto simp: validate_admin_query_def optional_def isInt_def)
  with a show "get_posts_admin user aq posts = Failure 400 ''Validation failed''"
    by (simp add: get_posts_admin_def)
qed

text \<open>
  Claim C7 says that every post-list request with a sort value outside the
  enumeration, a page below 1 or a limit outside 1 to 50 is rejected with a
  validation error before a query runs. \<open>GET /categories/:slug/posts\<close> repeats the
  pagination of the two post lists and has none of their validators. A page of 0
  and a limit of 100 are answered with status 200 and a limit of 100, where
  \<open>GET /posts\<close> answers the same two values with 400. A limit of -2 is served with
  a total of -1 pages. A page of -1 reaches the store as a skip of -20, which the
  store refuses, and the answer is 500.
\<close>

theorem C7_category_posts_not_validated:
  "get_category_posts ''tech'' \<lparr>cq_page = Some ''0'', cq_limit = Some ''100''\<rparr>
     [tech] []
   = Success 200
       (tech, [],
        \<lparr>currentPage = 1, totalPages = 0, totalPosts = 0, hasNextPage = False,
         hasPrevPage = False, limit = 100\<rparr>)
   \<and> get_posts (\<lambda>_. None) 0
       \<lparr>qp_page = Some ''0'', qp_limit = Some ''100'', qp_category = None, qp_tags = None,
        qp_search = None, qp_sort = None\<rparr> []
     = Failure 400 ''Validation failed''
   \<and> get_category_posts ''tech'' \<lparr>cq_page = None, cq_limit = Some ''-2''\<rparr>
       [tech]
       [(hello_post\<lparr>oid := 1, status := Published,
             publishedAt := Some 10\<rparr>),
        (hello_post\<lparr>oid := 2, status := Published,
             publishedAt := Some 30\<rparr>)]
     = Success 200
         (tech,
          [(hello_post\<lparr>oid := 2, status := Published,
                publishedAt := Some 30\<rparr>),
           (hello_post\<lparr>oid := 1, status := Published,
                publishedAt := Some 10\<rparr>)],
          \<lparr>currentPage = 1, totalPages = - 1, totalPosts = 2, hasNextPage = False,
           hasPrevPage = False, limit = - 2\<rparr>)
   \<and> get_category_posts ''tech'' \<lparr>cq_page = Some ''-1'', cq_limit = None\<rparr>
       [tech] []
     = Failure 500 ''Server error while fetching category posts''"
proof -
  have lower: "toLowerCase ''tech'' = ''tech''"
    by (simp add: toLowerCase_def lower_char_def is_upper_def)
  have large: "get_category_posts ''tech'' \<lparr>cq_page = Some ''0'', cq_limit = Some ''100''\<rparr>
     [tech] []
   = Success 200
       (tech, [],
        \<lparr>currentPage = 1, totalPages = 0, totalPosts = 0, hasNextPage = False,
         hasPrevPage = False, limit = 100\<rparr>)"
    by (simp add: get_category_posts_def lower parse_or_def parseInt_def is_space_def
        is_digit_def decimal_value_def to_number_small js_minus_def js_times_def skip_limit_def
        sort_by_def make_pagination_def countDocuments_def ceil_div_def)
  have sibling: "get_posts (\<lambda>_. None) 0
       \<lparr>qp_page = Some ''0'', qp_limit = Some ''100'', qp_category = None, qp_tags = None,
        qp_search = None, qp_sort = None\<rparr> []
     = Failure 400 ''Validation failed''"
    by (simp add: get_posts_def validate_posts_query_def optional_def isInt_def int_regex_def
        int_value_def is_digit_def decimal_value_def)
  have negative_limit: "get_category_posts ''tech'' \<lparr>cq_page = None, cq_limit = Some ''-2''\<rparr>
       [tech]
       [(hello_post\<lparr>oid := 1, status := Published,
             publishedAt := Some 10\<rparr>),
        (hello_post\<lparr>oid := 2, status := Published,
             publishedAt := Some 30\<rparr>)]
     = Success 200
         (tech,
          [(hello_post\<lparr>oid := 2, status := Published,
                publishedAt := Some 30\<rparr>),
           (hello_post\<lparr>oid := 1, status := Published,
                publishedAt := Some 10\<rparr>)],
          \<lparr>currentPage = 1, totalPages = - 1, totalPosts = 2, hasNextPage = False,
           hasPrevPage = False, limit = - 2\<rparr>)"
    by (simp add: get_category_posts_def lower parse_or_def parseInt_def is_space_def
        is_digit_def decimal_value_def to_number_small js_minus_def js_times_def skip_limit_def
        sort_by_def post_le_def null_le_def post_matches_def make_pagination_def
        countDocuments_def ceil_div_def)
  have negative_page: "get_category_posts ''tech'' \<lparr>cq_page = Some ''-1'', cq_limit = None\<rparr>
       [tech] []
     = Failure 500 ''Server error while fetching category posts''"
    by (simp add: get_category_posts_def lower parse_or_def parseInt_def is_space_def
        is_digit_def decimal_value_def to_number_small js_minus_def js_times_def skip_limit_def)
  from large sibling negative_limit negative_page show ?thesis
    by simp
qed

end
